theory Spec2Isabelle
  imports Complex_Main "HOL-Library.AList"
begin

section \<open>JavaScript values\<close>

text \<open>
  The converter is JavaScript. A JavaScript number is a binary64 value: a finite value, NaN
  or one of the two infinities. A finite value is held as the rational it denotes, and
  every arithmetic operation rounds its exact result to binary64 (\<open>fl\<close> below), as the
  hardware does. The sign of zero is not modelled.
\<close>

datatype jsnum = Fin rat | NaN | PosInf | NegInf

datatype jsval = Undefined | Null | Bool bool | Num jsnum | Str string

text \<open>
  \<open>\<lfloor>log\<^sub>2 x\<rfloor>\<close> of a positive rational: by halving when \<open>x \<ge> 1\<close>, by doubling
  when \<open>x < 1\<close>.
\<close>

function ilog2_up :: "rat \<Rightarrow> nat" where
  "ilog2_up x = (if x < 2 then 0 else Suc (ilog2_up (x / 2)))"
  by pat_completeness auto
termination
proof (relation "measure (\<lambda>x. nat \<lfloor>x\<rfloor>)")
  show "wf (measure (\<lambda>x::rat. nat \<lfloor>x\<rfloor>))"
    by simp
next
  fix x :: rat
  assume "\<not> x < 2"
  then have x: "2 \<le> x"
    by simp
  then have "x / 2 \<le> x - 1"
    by simp
  then have "\<lfloor>x / 2\<rfloor> \<le> \<lfloor>x - 1\<rfloor>"
    by (rule floor_mono)
  moreover have "2 \<le> \<lfloor>x\<rfloor>"
    using x by (simp add: le_floor_iff)
  ultimately show "(x / 2, x) \<in> measure (\<lambda>x. nat \<lfloor>x\<rfloor>)"
    by simp
qed

function ilog2_down :: "rat \<Rightarrow> nat" where
  "ilog2_down x = (if x \<le> 0 \<or> 1 \<le> x then 0 else Suc (ilog2_down (2 * x)))"
  by pat_completeness auto
termination
proof (relation "measure (\<lambda>x. nat \<lceil>1 / x\<rceil>)")
  show "wf (measure (\<lambda>x::rat. nat \<lceil>1 / x\<rceil>))"
    by simp
next
  fix x :: rat
  assume "\<not> (x \<le> 0 \<or> 1 \<le> x)"
  then have x: "0 < x" "x < 1"
    by simp_all
  then have y: "1 < 1 / x"
    by simp
  then have c: "2 \<le> \<lceil>1 / x\<rceil>"
    by (simp add: less_ceiling_iff flip: zle_add1_eq_le)
  have "1 / (2 * x) = (1 / x) / 2"
    by simp
  also have "\<dots> \<le> of_int \<lceil>1 / x\<rceil> / 2"
    by (simp add: divide_right_mono)
  also have "\<dots> \<le> of_int (\<lceil>1 / x\<rceil> - 1)"
    using c by simp
  finally have "\<lceil>1 / (2 * x)\<rceil> \<le> \<lceil>1 / x\<rceil> - 1"
    by (simp only: ceiling_le_iff)
  with c have "nat \<lceil>1 / (2 * x)\<rceil> < nat \<lceil>1 / x\<rceil>"
    by linarith
  then show "(2 * x, x) \<in> measure (\<lambda>x. nat \<lceil>1 / x\<rceil>)"
    by simp
qed

declare ilog2_up.simps [simp del]

declare ilog2_down.simps [simp del]

definition ilog2 :: "rat \<Rightarrow> int" where
  "ilog2 x = (if 1 \<le> x then int (ilog2_up x) else - int (ilog2_down x))"

text \<open>Rounding to the nearest integer, a tie going to the even one.\<close>

definition round_half_even :: "rat \<Rightarrow> int" where
  "round_half_even x =
     (let f = \<lfloor>x\<rfloor>; d = x - of_int f
      in if d < 1 / 2 then f else if 1 / 2 < d then f + 1 else if even f then f else f + 1)"

text \<open>
  Rounding to binary64, to nearest with ties to even: a finite binary64 value is
  \<open>m * 2\<^sup>e\<close> with \<open>\<bar>m\<bar> < 2\<^sup>5\<^sup>3\<close> and \<open>e \<ge> -1074\<close>, the exponent of a normal
  value keeps \<open>2\<^sup>5\<^sup>2 \<le> \<bar>m\<bar>\<close>, and a result of magnitude \<open>2\<^sup>1\<^sup>0\<^sup>2\<^sup>4\<close> or more is an
  infinity.
\<close>

definition fl :: "rat \<Rightarrow> jsnum" where
  "fl x =
     (if x = 0 then Fin 0
      else
        let e = max (ilog2 \<bar>x\<bar> - 52) (- 1074);
            m = round_half_even (\<bar>x\<bar> / 2 powi e);
            y = of_int m * 2 powi e
        in if 2 ^ 1024 \<le> y then (if 0 < x then PosInf else NegInf)
           else Fin (if 0 < x then y else - y))"

text \<open>\<open>a * b\<close> on numbers: the exact product, rounded.\<close>

fun js_mul :: "jsnum \<Rightarrow> jsnum \<Rightarrow> jsnum" where
  "js_mul (Fin a) (Fin b) = fl (a * b)"
| "js_mul NaN y = NaN"
| "js_mul x NaN = NaN"
| "js_mul (Fin a) PosInf = (if a = 0 then NaN else if a < 0 then NegInf else PosInf)"
| "js_mul (Fin a) NegInf = (if a = 0 then NaN else if a < 0 then PosInf else NegInf)"
| "js_mul PosInf (Fin b) = (if b = 0 then NaN else if b < 0 then NegInf else PosInf)"
| "js_mul NegInf (Fin b) = (if b = 0 then NaN else if b < 0 then PosInf else NegInf)"
| "js_mul PosInf PosInf = PosInf"
| "js_mul PosInf NegInf = NegInf"
| "js_mul NegInf PosInf = NegInf"
| "js_mul NegInf NegInf = PosInf"

text \<open>
  \<open>a / b\<close> on numbers: the exact quotient, rounded; a zero divisor is read as
  \<open>+0\<close>.
\<close>

fun js_div :: "jsnum \<Rightarrow> jsnum \<Rightarrow> jsnum" where
  "js_div (Fin a) (Fin b) =
     (if b \<noteq> 0 then fl (a / b) else if a = 0 then NaN else if a < 0 then NegInf else PosInf)"
| "js_div NaN y = NaN"
| "js_div x NaN = NaN"
| "js_div (Fin a) PosInf = Fin 0"
| "js_div (Fin a) NegInf = Fin 0"
| "js_div PosInf (Fin b) = (if b < 0 then NegInf else PosInf)"
| "js_div NegInf (Fin b) = (if b < 0 then PosInf else NegInf)"
| "js_div PosInf PosInf = NaN"
| "js_div PosInf NegInf = NaN"
| "js_div NegInf PosInf = NaN"
| "js_div NegInf NegInf = NaN"

text \<open>
  \<open>Math.round\<close>: the nearest integer, a tie going towards \<open>+\<infinity>\<close>
  (\<open>Math.round(2.5)\<close> is 3 and \<open>Math.round(-2.5)\<close> is -2). This is
  \<^term>\<open>round\<close> of HOL, \<open>round x = \<lfloor>x + 1/2\<rfloor>\<close>. The result is exact: a binary64
  value of magnitude \<open>2\<^sup>5\<^sup>2\<close> or more is an integer already.
\<close>

fun js_round :: "jsnum \<Rightarrow> jsnum" where
  "js_round (Fin a) = Fin (of_int (round a))"
| "js_round x = x"

text \<open>\<open>Number.isFinite\<close>.\<close>

fun isFinite :: "jsnum \<Rightarrow> bool" where
  "isFinite (Fin a) = True"
| "isFinite x = False"

text \<open>
  \<open>Number(v)\<close> and the implicit conversion of an operand of \<open>/\<close>. The conversion
  of a string is the JavaScript runtime's (StringToNumber); it is no code of the converter
  and is taken as the parameter \<open>sn\<close>.
\<close>

fun ToNumber :: "(string \<Rightarrow> jsnum) \<Rightarrow> jsval \<Rightarrow> jsnum" where
  "ToNumber sn Undefined = NaN"
| "ToNumber sn Null = Fin 0"
| "ToNumber sn (Bool b) = Fin (if b then 1 else 0)"
| "ToNumber sn (Num n) = n"
| "ToNumber sn (Str s) = sn s"

text \<open>Truthiness, as \<open>!v\<close> and \<open>v ? a : b\<close> read it.\<close>

fun truthy :: "jsval \<Rightarrow> bool" where
  "truthy Undefined = False"
| "truthy Null = False"
| "truthy (Bool b) = b"
| "truthy (Num (Fin a)) = (a \<noteq> 0)"
| "truthy (Num NaN) = False"
| "truthy (Num PosInf) = True"
| "truthy (Num NegInf) = True"
| "truthy (Str s) = (s \<noteq> [])"

text \<open>\<open>v != null\<close> is false for both \<open>null\<close> and \<open>undefined\<close>.\<close>

fun nullish :: "jsval \<Rightarrow> bool" where
  "nullish Undefined = True"
| "nullish Null = True"
| "nullish v = False"

text \<open>\<open>typeof v === 'number'\<close>.\<close>

fun is_number :: "jsval \<Rightarrow> bool" where
  "is_number (Num n) = True"
| "is_number v = False"

section \<open>Objects and property keys\<close>

text \<open>
  An attribute set delivered by the transport is an object: a finite map from property
  names to values. Property names are strings; a number used as a key, as in
  \<open>data[0x0505]\<close>, names the property whose name is its decimal rendering.
\<close>

type_synonym obj = "string \<rightharpoonup> jsval"

definition digit :: "nat \<Rightarrow> char" where
  "digit d = ''0123456789'' ! d"

function num_key :: "nat \<Rightarrow> string" where
  "num_key n = (if n < 10 then [digit n] else num_key (n div 10) @ [digit (n mod 10)])"
  by pat_completeness auto
termination
  by (relation "measure id") auto

declare num_key.simps [simp del]

text \<open>The objects the converter builds (\<open>out\<close>, the returned state) keep insertion order.\<close>

type_synonym out = "(string \<times> jsval) list"

definition assign :: "string \<Rightarrow> jsval \<Rightarrow> out \<Rightarrow> out" where
  "assign k v out = AList.update k v out"

text \<open>
  \<^verbatim>\<open>
  const hasAny = (obj, keys) => keys.some((k) => Object.prototype.hasOwnProperty.call(obj, k));
  const pick = (obj, keys) => keys.find((k) => Object.prototype.hasOwnProperty.call(obj, k));
  \<close>
\<close>

definition hasOwnProperty :: "obj \<Rightarrow> string \<Rightarrow> bool" where
  "hasOwnProperty ob k = (ob k \<noteq> None)"

definition hasAny :: "obj \<Rightarrow> string list \<Rightarrow> bool" where
  "hasAny ob keys = list_ex (hasOwnProperty ob) keys"

definition pick :: "obj \<Rightarrow> string list \<Rightarrow> string option" where
  "pick ob keys = find (hasOwnProperty ob) keys"

text \<open>
  \<open>ob[k]\<close> where \<open>k\<close> is what \<open>pick\<close> returned: a missing property reads as
  \<open>undefined\<close>, and the key \<open>undefined\<close> names the property \<open>"undefined"\<close>.
\<close>

definition index :: "obj \<Rightarrow> string option \<Rightarrow> jsval" where
  "index ob k =
     (case ob (case k of Some s \<Rightarrow> s | None \<Rightarrow> ''undefined'') of
        Some v \<Rightarrow> v
      | None \<Rightarrow> Undefined)"

text \<open>An inbound message; \<open>msg.data\<close> may be missing.\<close>

record msg =
  msg_data :: "obj option"

section \<open>Scaling codec: attribute reports and read responses\<close>

text \<open>The two raw values that mean "no reading": \<open>-32768\<close> and \<open>0x8000\<close>.\<close>

definition not_sentinel :: "jsval \<Rightarrow> bool" where
  "not_sentinel raw = (raw \<noteq> Num (Fin (- 32768)) \<and> raw \<noteq> Num (Fin 0x8000))"

text \<open>\<open>Math.round((x / d) * f) / f\<close>, the shape of every scaled decode.\<close>

definition scaled :: "jsnum \<Rightarrow> rat \<Rightarrow> rat \<Rightarrow> jsnum" where
  "scaled x d f = js_div (js_round (js_mul (js_div x (Fin d)) (Fin f))) (Fin f)"

text \<open>
  \<^verbatim>\<open>
  device_temp_num: { cluster: 'genDeviceTempCfg', ...
      convert: (model, msg) => {
          if (!msg.data) return;
          const key = pick(msg.data, [0x0000, 'currentTemperature']);
          if (key !== undefined) {
              const raw = msg.data[key];
              if (raw !== -32768 && raw !== 0x8000 && raw != null) {
                  return {device_temperature: Math.round((raw / 10) * 10) / 10};
  \<close>
\<close>

definition device_temp_num_convert :: "(string \<Rightarrow> jsnum) \<Rightarrow> msg \<Rightarrow> out option" where
  "device_temp_num_convert sn m =
     (case msg_data m of
        None \<Rightarrow> None
      | Some data \<Rightarrow>
          (case pick data [num_key 0x0000, ''currentTemperature''] of
             None \<Rightarrow> None
           | Some key \<Rightarrow>
               (let raw = index data (Some key) in
                if not_sentinel raw \<and> \<not> nullish raw
                then Some [(''device_temperature'', Num (scaled (ToNumber sn raw) 10 10))]
                else None)))"

text \<open>
  \<^verbatim>\<open>
  temp_measurement_num: { cluster: 'msTemperatureMeasurement', ...
          const key = pick(msg.data, [0x0000, 'measuredValue']);
          ...
              if (raw !== -32768 && raw !== 0x8000 && raw != null) {
                  return {ntc1_temperature: Math.round((raw / 100) * 10) / 10};
  \<close>
\<close>

definition temp_measurement_num_convert :: "(string \<Rightarrow> jsnum) \<Rightarrow> msg \<Rightarrow> out option" where
  "temp_measurement_num_convert sn m =
     (case msg_data m of
        None \<Rightarrow> None
      | Some data \<Rightarrow>
          (case pick data [num_key 0x0000, ''measuredValue''] of
             None \<Rightarrow> None
           | Some key \<Rightarrow>
               (let raw = index data (Some key) in
                if not_sentinel raw \<and> \<not> nullish raw
                then Some [(''ntc1_temperature'', Num (scaled (ToNumber sn raw) 100 10))]
                else None)))"

text \<open>
  \<^verbatim>\<open>
  electrical_num: { cluster: 'haElectricalMeasurement', ...
      convert: (model, msg) => {
          const out = {};
          if (!msg.data) return;
          const voltKey = pick(msg.data, [0x0505, 'rmsVoltage']);
          const currKey = pick(msg.data, [0x0508, 'rmsCurrent']);
          const powKey  = pick(msg.data, [0x050B, 'activePower']);
          if (voltKey !== undefined) out.voltage = msg.data[voltKey] / 10;
          if (currKey !== undefined) out.current = Math.round((msg.data[currKey] / 1000) * 100) / 100;
          if (powKey  !== undefined) out.power = msg.data[powKey];
          return Object.keys(out).length ? out : undefined;
  \<close>
\<close>

definition electrical_num_convert :: "(string \<Rightarrow> jsnum) \<Rightarrow> msg \<Rightarrow> out option" where
  "electrical_num_convert sn m =
     (case msg_data m of
        None \<Rightarrow> None
      | Some data \<Rightarrow>
          (let out = [];
               voltKey = pick data [num_key 0x0505, ''rmsVoltage''];
               currKey = pick data [num_key 0x0508, ''rmsCurrent''];
               powKey = pick data [num_key 0x050B, ''activePower''];
               out = (if voltKey \<noteq> None
                      then assign ''voltage''
                             (Num (js_div (ToNumber sn (index data voltKey)) (Fin 10))) out
                      else out);
               out = (if currKey \<noteq> None
                      then assign ''current''
                             (Num (scaled (ToNumber sn (index data currKey)) 1000 100)) out
                      else out);
               out = (if powKey \<noteq> None
                      then assign ''power'' (index data powKey) out
                      else out)
           in if out \<noteq> [] then Some out else None))"

text \<open>
  \<^verbatim>\<open>
  metering_num: { cluster: 'seMetering', ...
          const key = pick(msg.data, [0x0000, 'currentSummationDelivered', 'currentSummDelivered']);
          if (key !== undefined) {
              const raw = msg.data[key];
              if (typeof raw === 'number') {
                  return {energy: Math.round(raw / 100 * 100) / 100};
  \<close>
\<close>

definition metering_num_convert :: "(string \<Rightarrow> jsnum) \<Rightarrow> msg \<Rightarrow> out option" where
  "metering_num_convert sn m =
     (case msg_data m of
        None \<Rightarrow> None
      | Some data \<Rightarrow>
          (case pick data
                  [num_key 0x0000, ''currentSummationDelivered'', ''currentSummDelivered''] of
             None \<Rightarrow> None
           | Some key \<Rightarrow>
               (let raw = index data (Some key) in
                if is_number raw
                then Some [(''energy'', Num (scaled (ToNumber sn raw) 100 100))]
                else None)))"

section \<open>Enumeration tables\<close>

text \<open>
  \<^verbatim>\<open>
  const NTC_TYPE_MAP = {'None': 0, 'NTC-10K': 1, 'NTC-12K': 2, 'NTC-15K': 3,
                        'NTC-22K': 4, 'NTC-33K': 5, 'NTC-47K': 6};
  \<close>
  and likewise the other four tables. An object literal is an association list from labels
  to codes.
\<close>

type_synonym enum_map = "(string \<times> nat) list"

definition NTC_TYPE_MAP :: enum_map where
  "NTC_TYPE_MAP =
     [(''None'', 0), (''NTC-10K'', 1), (''NTC-12K'', 2), (''NTC-15K'', 3),
      (''NTC-22K'', 4), (''NTC-33K'', 5), (''NTC-47K'', 6)]"

definition WATER_RELAY_ACTION_MAP :: enum_map where
  "WATER_RELAY_ACTION_MAP =
     [(''No action'', 0),
      (''Water alarm: Turn OFF (restore when dry)'', 1),
      (''Water alarm: Turn ON (restore when dry)'', 2),
      (''Water alarm: Turn OFF (stay off)'', 3),
      (''Water alarm: Turn ON (stay on)'', 4),
      (''No water: Turn OFF'', 5),
      (''No water: Turn ON'', 6)]"

definition NTC1_OPERATION_MAP :: enum_map where
  "NTC1_OPERATION_MAP =
     [(''No action'', 0),
      (''OFF when hot, ON when cold'', 1),
      (''ON when hot, OFF when cold'', 2),
      (''OFF when hot (stay off)'', 3),
      (''ON when hot (stay on)'', 4)]"

definition NTC2_OPERATION_MAP :: enum_map where
  "NTC2_OPERATION_MAP =
     [(''No action'', 0),
      (''OFF when hot, ON when cold'', 1),
      (''ON when hot, OFF when cold'', 2),
      (''OFF when hot (stay off)'', 3),
      (''ON when hot (stay on)'', 4)]"

definition OVERRIDE_OPTION_MAP :: enum_map where
  "OVERRIDE_OPTION_MAP =
     [(''No priority'', 0),
      (''Water alarm has priority'', 1),
      (''Temperature (NTC) has priority'', 2)]"

text \<open>
  \<^verbatim>\<open>
  const invert = (map) => Object.fromEntries(Object.entries(map).map(([k, v]) => [v, k]));
  \<close>
  The inverted table is an object whose property names are the codes' decimal renderings;
  of two entries with one code the later wins.
\<close>

definition invert :: "enum_map \<Rightarrow> obj" where
  "invert m = fold (\<lambda>(k, v) ob. ob(num_key v \<mapsto> Str k)) m Map.empty"

definition NTC_TYPE_INV :: obj where
  "NTC_TYPE_INV = invert NTC_TYPE_MAP"

definition WATER_RELAY_ACTION_INV :: obj where
  "WATER_RELAY_ACTION_INV = invert WATER_RELAY_ACTION_MAP"

definition NTC1_OPERATION_INV :: obj where
  "NTC1_OPERATION_INV = invert NTC1_OPERATION_MAP"

definition NTC2_OPERATION_INV :: obj where
  "NTC2_OPERATION_INV = invert NTC2_OPERATION_MAP"

definition OVERRIDE_OPTION_INV :: obj where
  "OVERRIDE_OPTION_INV = invert OVERRIDE_OPTION_MAP"

text \<open>
  The property name a value denotes when it indexes an inverted table. Only a name made of
  decimal digits can be a property of such a table: a natural number below \<open>10\<^sup>2\<^sup>1\<close>
  is rendered in digits, a string names itself, and every other value is rendered with a
  letter, a sign or a point (\<open>"true"\<close>, \<open>"NaN"\<close>, \<open>"-1"\<close>, \<open>"1.5"\<close>,
  \<open>"1e+21"\<close>) and so names no property of the table (\<open>None\<close>). Properties inherited
  from \<open>Object.prototype\<close> are not modelled.
\<close>

fun property_key :: "jsval \<Rightarrow> string option" where
  "property_key (Num (Fin r)) =
     (if 0 \<le> r \<and> r < 10 ^ 21 \<and> of_int \<lfloor>r\<rfloor> = r then Some (num_key (nat \<lfloor>r\<rfloor>)) else None)"
| "property_key (Str s) = Some s"
| "property_key v = None"

text \<open>\<open>INV[raw] ?? raw\<close>: the label of a known code, and the raw value otherwise.\<close>

definition label_or_raw :: "obj \<Rightarrow> jsval \<Rightarrow> jsval" where
  "label_or_raw tbl raw =
     (case property_key raw of
        None \<Rightarrow> raw
      | Some k \<Rightarrow> (case tbl k of None \<Rightarrow> raw | Some v \<Rightarrow> if nullish v then raw else v))"

section \<open>The private cluster 0x04E0\<close>

text \<open>
  \<^verbatim>\<open>
  private_04e0_num: { cluster: '1248', type: ['attributeReport', 'readResponse'],
      convert: (model, msg) => {
          const out = {};
          const data = msg.data;
          if (!data) return;
          const mapAndAssign = (attrId, aliases, handler) => {
              if (hasAny(data, aliases)) handler(data[pick(data, aliases)]);
          };
          mapAndAssign(0x0000, [0x0000, 'measuredValue2', 'ntc2Temperature'], (raw) => {
              if (typeof raw === 'number' && raw !== -32768 && raw !== 0x8000) {
                  out.ntc2_temperature = Math.round((raw / 100) * 10) / 10;
              }
          });
          mapAndAssign(0x0001, [0x0001, 'resistanceValue1'], (raw) => {
              if (raw != null) out.ntc1_sensor_type = NTC_TYPE_INV[raw] ?? raw;
          });
          ...
          mapAndAssign(0x0003, [0x0003, 'waterSensorValue', 'waterSensor'], (raw) => {
              out.water_sensor = !raw; // Inverted: true=water detected (shorted), false=no water
          });
          mapAndAssign(0x0004, [0x0004, 'NTCCalibration1'], (raw) => {
              if (typeof raw === 'number') out.ntc1_calibration = raw;
          });
          ...
          mapAndAssign(0x000E, [0x000E, 'waterConditionAlarm'], (raw) => {
              if (raw != null) out.water_condition_alarm = !!raw;
          });
          ...
          return Object.keys(out).length ? out : undefined;
  \<close>
  A handler mutates \<open>out\<close>; here it takes \<open>out\<close> and returns it updated.
\<close>

definition mapAndAssign ::
  "obj \<Rightarrow> nat \<Rightarrow> string list \<Rightarrow> (jsval \<Rightarrow> out \<Rightarrow> out) \<Rightarrow> out \<Rightarrow> out" where
  "mapAndAssign data attrId aliases handler out =
     (if hasAny data aliases then handler (index data (pick data aliases)) out else out)"

text \<open>The four shapes of handler the converter uses.\<close>

definition temperature_handler :: "(string \<Rightarrow> jsnum) \<Rightarrow> string \<Rightarrow> jsval \<Rightarrow> out \<Rightarrow> out" where
  "temperature_handler sn field raw out =
     (if is_number raw \<and> not_sentinel raw
      then assign field (Num (scaled (ToNumber sn raw) 100 10)) out
      else out)"

definition enum_handler :: "obj \<Rightarrow> string \<Rightarrow> jsval \<Rightarrow> out \<Rightarrow> out" where
  "enum_handler tbl field raw out =
     (if \<not> nullish raw then assign field (label_or_raw tbl raw) out else out)"

definition number_handler :: "string \<Rightarrow> jsval \<Rightarrow> out \<Rightarrow> out" where
  "number_handler field raw out = (if is_number raw then assign field raw out else out)"

definition flag_handler :: "string \<Rightarrow> jsval \<Rightarrow> out \<Rightarrow> out" where
  "flag_handler field raw out =
     (if \<not> nullish raw then assign field (Bool (truthy raw)) out else out)"

text \<open>
  The water sensor's handler has no guard and negates:
  \<open>out.water_sensor = !raw\<close>.
\<close>

definition water_sensor_handler :: "jsval \<Rightarrow> out \<Rightarrow> out" where
  "water_sensor_handler raw out = assign ''water_sensor'' (Bool (\<not> truthy raw)) out"

definition private_04e0_num_convert :: "(string \<Rightarrow> jsnum) \<Rightarrow> msg \<Rightarrow> out option" where
  "private_04e0_num_convert sn m =
     (case msg_data m of
        None \<Rightarrow> None
      | Some data \<Rightarrow>
          (let out = [];
               out = mapAndAssign data 0x0000 [num_key 0x0000, ''measuredValue2'', ''ntc2Temperature'']
                       (temperature_handler sn ''ntc2_temperature'') out;
               out = mapAndAssign data 0x0001 [num_key 0x0001, ''resistanceValue1'']
                       (enum_handler NTC_TYPE_INV ''ntc1_sensor_type'') out;
               out = mapAndAssign data 0x0002 [num_key 0x0002, ''resistanceValue2'']
                       (enum_handler NTC_TYPE_INV ''ntc2_sensor_type'') out;
               out = mapAndAssign data 0x0003 [num_key 0x0003, ''waterSensorValue'', ''waterSensor'']
                       water_sensor_handler out;
               out = mapAndAssign data 0x0004 [num_key 0x0004, ''NTCCalibration1'']
                       (number_handler ''ntc1_calibration'') out;
               out = mapAndAssign data 0x0005 [num_key 0x0005, ''NTCCalibration2'']
                       (number_handler ''ntc2_calibration'') out;
               out = mapAndAssign data 0x0006 [num_key 0x0006, ''waterAlarmRelayAction'']
                       (enum_handler WATER_RELAY_ACTION_INV ''water_alarm_relay_action'') out;
               out = mapAndAssign data 0x0007 [num_key 0x0007, ''ntc1OperationSelect'']
                       (enum_handler NTC1_OPERATION_INV ''ntc1_operation_mode'') out;
               out = mapAndAssign data 0x0008 [num_key 0x0008, ''ntc2OperationSelect'']
                       (enum_handler NTC2_OPERATION_INV ''ntc2_operation_mode'') out;
               out = mapAndAssign data 0x0009 [num_key 0x0009, ''ntc1RelayAutoTemp'']
                       (temperature_handler sn ''ntc1_relay_auto_temp'') out;
               out = mapAndAssign data 0x000A [num_key 0x000A, ''ntc2RelayAutoTemp'']
                       (temperature_handler sn ''ntc2_relay_auto_temp'') out;
               out = mapAndAssign data 0x000B [num_key 0x000B, ''overrideOption'']
                       (enum_handler OVERRIDE_OPTION_INV ''override_option'') out;
               out = mapAndAssign data 0x000C [num_key 0x000C, ''ntc1TempHysterisis'']
                       (number_handler ''ntc1_temp_hysteresis'') out;
               out = mapAndAssign data 0x000D [num_key 0x000D, ''ntc2TempHysterisis'']
                       (number_handler ''ntc2_temp_hysteresis'') out;
               out = mapAndAssign data 0x000E [num_key 0x000E, ''waterConditionAlarm'']
                       (flag_handler ''water_condition_alarm'') out;
               out = mapAndAssign data 0x000F [num_key 0x000F, ''ntcConditionAlarm'']
                       (flag_handler ''ntc_condition_alarm'') out;
               out = mapAndAssign data 0x0010 [num_key 0x0010, ''isExecuteCondition'']
                       (flag_handler ''is_execute_condition'') out
           in if out \<noteq> [] then Some out else None))"

section \<open>Write path: parsing the value to set\<close>

text \<open>
  The failures of the converter are JavaScript errors told apart by their message:
  \<open>missing value for <label>\<close>, \<open>invalid <label>: <value>\<close>,
  \<open>unsupported set key <key>\<close>, \<open>Failed to read <key>: <message>\<close>, and the
  transport's own failure, which carries a message.
\<close>

datatype error =
    MissingValue string
  | InvalidValue string jsval
  | UnsupportedField string
  | FailedToRead string string
  | TransportFailure string

record parsed =
  parsed_raw :: jsval
  parsed_text :: jsval

text \<open>
  \<open>String.prototype.trim\<close> removes white space and line terminators from both ends.
  Characters are 8-bit here, so these are TAB, LF, VT, FF, CR, SP and NBSP.
\<close>

definition is_space :: "char \<Rightarrow> bool" where
  "is_space c = (of_char c \<in> {9, 10, 11, 12, 13, 32, 160 :: nat})"

definition trim :: "string \<Rightarrow> string" where
  "trim s = rev (dropWhile is_space (rev (dropWhile is_space s)))"

text \<open>
  \<^verbatim>\<open>
  const parseEnumValue = (value, map, label) => {
      if (value === undefined || value === null) throw new Error(`... missing value for ${label}`);
      if (typeof value === 'string') {
          const key = value.trim();
          if (Object.prototype.hasOwnProperty.call(map, key)) {
              return {raw: map[key], text: key};
          }
      } else if (typeof value === 'number') {
          const found = Object.entries(map).find(([, v]) => v === value);
          if (found) return {raw: value, text: found[0]};
      }
      throw new Error(`... invalid ${label}: ${value}`);
  };
  \<close>
\<close>

definition parseEnumValue :: "jsval \<Rightarrow> enum_map \<Rightarrow> string \<Rightarrow> error + parsed" where
  "parseEnumValue value m label =
     (if value = Undefined \<or> value = Null then Inl (MissingValue label)
      else case value of
        Str s \<Rightarrow>
          (let key = trim s in
           case map_of m key of
             Some c \<Rightarrow> Inr \<lparr>parsed_raw = Num (Fin (of_nat c)), parsed_text = Str key\<rparr>
           | None \<Rightarrow> Inl (InvalidValue label value))
      | Num n \<Rightarrow>
          (case find (\<lambda>(k, v). Fin (of_nat v) = n) m of
             Some found \<Rightarrow> Inr \<lparr>parsed_raw = value, parsed_text = Str (fst found)\<rparr>
           | None \<Rightarrow> Inl (InvalidValue label value))
      | _ \<Rightarrow> Inl (InvalidValue label value))"

text \<open>
  \<open>Math.max(Math.round(Math.log10(s)), 0)\<close> for a positive rational \<open>s\<close>: the number
  of times \<open>s\<close> is divided by ten until its square is below ten (lemma
  \<open>rlog10_is_log\<close> below). The logarithm is taken exactly; the converter calls
  \<open>parseNumeric\<close> with the scales 1 and 100 only.
\<close>

function rlog10 :: "rat \<Rightarrow> nat" where
  "rlog10 s = (if s \<le> 0 \<or> s * s < 10 then 0 else Suc (rlog10 (s / 10)))"
  by pat_completeness auto
termination
proof (relation "measure (\<lambda>s. nat \<lfloor>s\<rfloor>)")
  show "wf (measure (\<lambda>s::rat. nat \<lfloor>s\<rfloor>))"
    by simp
next
  fix s :: rat
  assume a: "\<not> (s \<le> 0 \<or> s * s < 10)"
  then have pos: "0 < s" and sq: "10 \<le> s * s"
    by auto
  have "3 \<le> s"
  proof (rule ccontr)
    assume "\<not> 3 \<le> s"
    then have "s < 3" by simp
    then have "s * s < 3 * 3"
      using pos by (intro mult_strict_mono) auto
    with sq show False by simp
  qed
  then have "s / 10 \<le> s - 1"
    by simp
  then have "\<lfloor>s / 10\<rfloor> \<le> \<lfloor>s - 1\<rfloor>"
    by (rule floor_mono)
  moreover have "\<lfloor>s - 1\<rfloor> = \<lfloor>s\<rfloor> - 1"
    by simp
  moreover have "3 \<le> \<lfloor>s\<rfloor>"
    using \<open>3 \<le> s\<close> by (simp add: le_floor_iff)
  ultimately show "(s / 10, s) \<in> measure (\<lambda>s. nat \<lfloor>s\<rfloor>)"
    by simp
qed

declare rlog10.simps [simp del]

text \<open>\<open>Math.max(Math.round(Math.log10(x)), 0)\<close> on every number.\<close>

fun log10_round_max0 :: "jsnum \<Rightarrow> jsnum" where
  "log10_round_max0 (Fin s) =
     (if 0 < s then Fin (of_nat (rlog10 s)) else if s = 0 then Fin 0 else NaN)"
| "log10_round_max0 NaN = NaN"
| "log10_round_max0 PosInf = PosInf"
| "log10_round_max0 NegInf = NaN"

text \<open>\<open>10 ** x\<close> for the values \<open>log10_round_max0\<close> returns.\<close>

fun pow10 :: "jsnum \<Rightarrow> jsnum" where
  "pow10 (Fin d) = fl (10 ^ nat \<lfloor>d\<rfloor>)"
| "pow10 NaN = NaN"
| "pow10 PosInf = PosInf"
| "pow10 NegInf = Fin 0"

text \<open>
  \<^verbatim>\<open>
  const parseNumeric = (value, label, scale = 1) => {
      if (value === undefined || value === null) throw new Error(`... missing value for ${label}`);
      const num = Number(value);
      if (!Number.isFinite(num)) throw new Error(`... invalid ${label}: ${value}`);
      const raw = Math.round(num * scale);
      if (scale === 1) {
          return {raw, text: raw};
      }
      const decimals = Math.round(Math.log10(scale));
      const factor = 10 ** Math.max(decimals, 0);
      const friendly = Math.round((raw / scale) * factor) / factor;
      return {raw, text: friendly};
  };
  \<close>
  A caller that leaves \<open>scale\<close> out passes \<open>Fin 1\<close>.
\<close>

definition parseNumeric ::
  "(string \<Rightarrow> jsnum) \<Rightarrow> jsval \<Rightarrow> string \<Rightarrow> jsnum \<Rightarrow> error + parsed" where
  "parseNumeric sn value label scale =
     (if value = Undefined \<or> value = Null then Inl (MissingValue label)
      else
        let num = ToNumber sn value in
        if \<not> isFinite num then Inl (InvalidValue label value)
        else
          let r = js_round (js_mul num scale) in
          if scale = Fin 1 then Inr \<lparr>parsed_raw = Num r, parsed_text = Num r\<rparr>
          else
            let factor = pow10 (log10_round_max0 scale);
                friendly = js_div (js_round (js_mul (js_div r scale) factor)) factor
            in Inr \<lparr>parsed_raw = Num r, parsed_text = Num friendly\<rparr>)"

section \<open>On-demand reads: \<open>tzLocal.get_attribute\<close> and \<open>tzLocal.set_private_attribute\<close>\<close>

text \<open>
  A cluster is named or numbered: \<open>entity.read('genDeviceTempCfg', [0x0000])\<close>,
  \<open>entity.read(0x04E0, [0x0003])\<close>. The entity is the transport's: \<open>read\<close> resolves
  with an attribute set or rejects with a message, \<open>write\<close> resolves or rejects.
\<close>

datatype cluster = ClusterName string | ClusterId nat

datatype zcl_type = ENUM8 | INT8 | INT16

record wire_write =
  w_cluster :: cluster
  w_attribute :: nat
  w_value :: jsval
  w_type :: zcl_type

record entity =
  ent_read :: "cluster \<Rightarrow> nat list \<Rightarrow> string + obj"
  ent_write :: "wire_write \<Rightarrow> string option"

definition PRIVATE_CLUSTER_ID :: nat where
  "PRIVATE_CLUSTER_ID = 0x04E0"

text \<open>
  Every case of \<open>convertGet\<close> starts with the same three statements,
  \<^verbatim>\<open>
  res = await entity.read(cluster, attrs);
  k = pick(res, aliases); raw = res?.[k];
  \<close>
  and then returns \<open>{state: {...}}\<close> or falls out of the \<open>switch\<close> (\<open>None\<close>).
\<close>

definition read_raw ::
  "entity \<Rightarrow> cluster \<Rightarrow> nat list \<Rightarrow> string list \<Rightarrow> (jsval \<Rightarrow> out option) \<Rightarrow> string + out option" where
  "read_raw ent c attrs aliases f =
     (case ent_read ent c attrs of
        Inl err \<Rightarrow> Inl err
      | Inr res \<Rightarrow> Inr (f (index res (pick res aliases))))"

text \<open>
  \<^verbatim>\<open>
  case 'device_temperature':
      res = await entity.read('genDeviceTempCfg', [0x0000]);
      k = pick(res, [0x0000, 'currentTemperature']); raw = res?.[k];
      if (raw !== undefined && raw !== null && raw !== -32768 && raw !== 0x8000) {
          val = raw; return {state: {device_temperature: val}};
      }
      break;
  \<close>
\<close>

definition get_device_temperature :: "entity \<Rightarrow> string + out option" where
  "get_device_temperature ent =
     read_raw ent (ClusterName ''genDeviceTempCfg'') [0x0000]
       [num_key 0x0000, ''currentTemperature'']
       (\<lambda>raw. if raw \<noteq> Undefined \<and> raw \<noteq> Null \<and> not_sentinel raw
              then Some [(''device_temperature'', raw)] else None)"

text \<open>
  \<^verbatim>\<open>
  case 'ntc1_temperature': ... entity.read('msTemperatureMeasurement', [0x0000]);
      k = pick(res, [0x0000, 'measuredValue']); raw = res?.[k];
      if (raw !== undefined && raw !== null && raw !== -32768 && raw !== 0x8000) {
          val = Math.round((raw/100)*100)/100;
          return {state: {ntc1_temperature: val}};
  case 'ntc2_temperature': ... entity.read(0x04E0, [0x0000]);
      k = pick(res, [0x0000, 'ntc2Temperature']); raw = res?.[k];
      if (typeof raw === 'number' && raw !== -32768 && raw !== 0x8000 && raw !== 0) {
          val = Math.round((raw/100)*100)/100;
          return {state: {ntc2_temperature: val}};
  case 'water_sensor': ... entity.read(0x04E0, [0x0003]);
      k = pick(res, [0x0003, 'waterSensor']); raw = res?.[k];
      if (raw !== undefined) { const state = !raw; return {state: {water_sensor: state}}; }
  \<close>
\<close>

definition get_ntc1_temperature :: "(string \<Rightarrow> jsnum) \<Rightarrow> entity \<Rightarrow> string + out option" where
  "get_ntc1_temperature sn ent =
     read_raw ent (ClusterName ''msTemperatureMeasurement'') [0x0000]
       [num_key 0x0000, ''measuredValue'']
       (\<lambda>raw. if raw \<noteq> Undefined \<and> raw \<noteq> Null \<and> not_sentinel raw
              then Some [(''ntc1_temperature'', Num (scaled (ToNumber sn raw) 100 100))]
              else None)"

definition get_ntc2_temperature :: "(string \<Rightarrow> jsnum) \<Rightarrow> entity \<Rightarrow> string + out option" where
  "get_ntc2_temperature sn ent =
     read_raw ent (ClusterId 0x04E0) [0x0000] [num_key 0x0000, ''ntc2Temperature'']
       (\<lambda>raw. if is_number raw \<and> not_sentinel raw \<and> raw \<noteq> Num (Fin 0)
              then Some [(''ntc2_temperature'', Num (scaled (ToNumber sn raw) 100 100))]
              else None)"

definition get_water_sensor :: "entity \<Rightarrow> string + out option" where
  "get_water_sensor ent =
     read_raw ent (ClusterId 0x04E0) [0x0003] [num_key 0x0003, ''waterSensor'']
       (\<lambda>raw. if raw \<noteq> Undefined
              then Some [(''water_sensor'', Bool (\<not> truthy raw))] else None)"

text \<open>
  \<^verbatim>\<open>
  case 'voltage': ... entity.read('haElectricalMeasurement', [0x0505]);
      k = pick(res, [0x0505, 'rmsVoltage']); raw = res?.[k];
      if (typeof raw === 'number') { val = raw/10; return {state: {voltage: val}}; }
  case 'current': ... [0x0508] ... pick(res, [0x0508, 'rmsCurrent']) ...
      if (typeof raw === 'number') { val = Math.round((raw / 1000) * 100) / 100; ...
  case 'power': ... [0x050B] ... pick(res, [0x050B, 'activePower']) ...
      if (typeof raw === 'number') { return {state: {power: raw}}; }
  case 'energy': ... entity.read('seMetering', [0x0000]);
      k = pick(res, [0x0000, 'currentSummationDelivered', 'currentSummDelivered']); ...
      if (typeof raw === 'number') { val = Math.round(raw / 100 * 100) / 100; ...
  \<close>
\<close>

definition get_voltage :: "(string \<Rightarrow> jsnum) \<Rightarrow> entity \<Rightarrow> string + out option" where
  "get_voltage sn ent =
     read_raw ent (ClusterName ''haElectricalMeasurement'') [0x0505]
       [num_key 0x0505, ''rmsVoltage'']
       (\<lambda>raw. if is_number raw
              then Some [(''voltage'', Num (js_div (ToNumber sn raw) (Fin 10)))] else None)"

definition get_current :: "(string \<Rightarrow> jsnum) \<Rightarrow> entity \<Rightarrow> string + out option" where
  "get_current sn ent =
     read_raw ent (ClusterName ''haElectricalMeasurement'') [0x0508]
       [num_key 0x0508, ''rmsCurrent'']
       (\<lambda>raw. if is_number raw
              then Some [(''current'', Num (scaled (ToNumber sn raw) 1000 100))] else None)"

definition get_power :: "entity \<Rightarrow> string + out option" where
  "get_power ent =
     read_raw ent (ClusterName ''haElectricalMeasurement'') [0x050B]
       [num_key 0x050B, ''activePower'']
       (\<lambda>raw. if is_number raw then Some [(''power'', raw)] else None)"

definition get_energy :: "(string \<Rightarrow> jsnum) \<Rightarrow> entity \<Rightarrow> string + out option" where
  "get_energy sn ent =
     read_raw ent (ClusterName ''seMetering'') [0x0000]
       [num_key 0x0000, ''currentSummationDelivered'', ''currentSummDelivered'']
       (\<lambda>raw. if is_number raw
              then Some [(''energy'', Num (scaled (ToNumber sn raw) 100 100))] else None)"

text \<open>
  \<^verbatim>\<open>
  case 'water_condition_alarm':
      res = await entity.read(PRIVATE_CLUSTER_ID, [0x000E]);
      k = pick(res, [0x000E, 'waterConditionAlarm']); raw = res?.[k];
      if (raw != null) return {state: {water_condition_alarm: !!raw}};
  \<close>
  and the same for \<open>ntc_condition_alarm\<close> (0x000F) and \<open>is_execute_condition\<close> (0x0010).
\<close>

definition get_flag :: "entity \<Rightarrow> nat \<Rightarrow> string \<Rightarrow> string \<Rightarrow> string + out option" where
  "get_flag ent attr alias field =
     read_raw ent (ClusterId PRIVATE_CLUSTER_ID) [attr] [num_key attr, alias]
       (\<lambda>raw. if \<not> nullish raw then Some [(field, Bool (truthy raw))] else None)"

text \<open>
  \<^verbatim>\<open>
  convertGet: async (entity, key) => {
      try {
          let res; let k; let raw; let val;
          switch (key) { case 'device_temperature': ... }
      } catch (err) {
          throw new Error(`Failed to read ${key}: ${err.message}`);
      }
  },
  \<close>
  A key that matches no case returns nothing.
\<close>

definition failed_to_read :: "string \<Rightarrow> string + out option \<Rightarrow> error + out option" where
  "failed_to_read key r = (case r of Inl err \<Rightarrow> Inl (FailedToRead key err) | Inr st \<Rightarrow> Inr st)"

definition get_attribute_convertGet ::
  "(string \<Rightarrow> jsnum) \<Rightarrow> entity \<Rightarrow> string \<Rightarrow> error + out option" where
  "get_attribute_convertGet sn ent key =
     failed_to_read key
       (if key = ''device_temperature'' then get_device_temperature ent
        else if key = ''ntc1_temperature'' then get_ntc1_temperature sn ent
        else if key = ''ntc2_temperature'' then get_ntc2_temperature sn ent
        else if key = ''water_sensor'' then get_water_sensor ent
        else if key = ''voltage'' then get_voltage sn ent
        else if key = ''current'' then get_current sn ent
        else if key = ''power'' then get_power ent
        else if key = ''energy'' then get_energy sn ent
        else if key = ''water_condition_alarm''
          then get_flag ent 0x000E ''waterConditionAlarm'' ''water_condition_alarm''
        else if key = ''ntc_condition_alarm''
          then get_flag ent 0x000F ''ntcConditionAlarm'' ''ntc_condition_alarm''
        else if key = ''is_execute_condition''
          then get_flag ent 0x0010 ''isExecuteCondition'' ''is_execute_condition''
        else Inr None)"

text \<open>
  \<open>set_private_attribute.convertGet\<close> has three shapes of case:
  \<^verbatim>\<open>
  case 'ntc1_sensor_type':
      res = await entity.read(PRIVATE_CLUSTER_ID, [0x0001]);
      k = pick(res, [0x0001, 'resistanceValue1']); raw = res?.[k];
      if (raw != null) return {state: {ntc1_sensor_type: NTC_TYPE_INV[raw] ?? raw}};
  case 'ntc1_relay_auto_temp':
      res = await entity.read(PRIVATE_CLUSTER_ID, [0x0009]);
      k = pick(res, [0x0009, 'ntc1RelayAutoTemp']); raw = res?.[k];
      if (typeof raw === 'number' && raw !== -32768 && raw !== 0x8000) {
          val = Math.round((raw/100)*10)/10; return {state: {ntc1_relay_auto_temp: val}};
  case 'ntc1_calibration':
      res = await entity.read(PRIVATE_CLUSTER_ID, [0x0004]);
      k = pick(res, [0x0004, 'NTCCalibration1']); raw = res?.[k];
      if (typeof raw === 'number') return {state: {ntc1_calibration: raw}};
  \<close>
\<close>

definition get_enum :: "entity \<Rightarrow> nat \<Rightarrow> string \<Rightarrow> obj \<Rightarrow> string \<Rightarrow> string + out option" where
  "get_enum ent attr alias tbl field =
     read_raw ent (ClusterId PRIVATE_CLUSTER_ID) [attr] [num_key attr, alias]
       (\<lambda>raw. if \<not> nullish raw then Some [(field, label_or_raw tbl raw)] else None)"

definition get_relay_auto_temp ::
  "(string \<Rightarrow> jsnum) \<Rightarrow> entity \<Rightarrow> nat \<Rightarrow> string \<Rightarrow> string \<Rightarrow> string + out option" where
  "get_relay_auto_temp sn ent attr alias field =
     read_raw ent (ClusterId PRIVATE_CLUSTER_ID) [attr] [num_key attr, alias]
       (\<lambda>raw. if is_number raw \<and> not_sentinel raw
              then Some [(field, Num (scaled (ToNumber sn raw) 100 10))] else None)"

definition get_number :: "entity \<Rightarrow> nat \<Rightarrow> string \<Rightarrow> string \<Rightarrow> string + out option" where
  "get_number ent attr alias field =
     read_raw ent (ClusterId PRIVATE_CLUSTER_ID) [attr] [num_key attr, alias]
       (\<lambda>raw. if is_number raw then Some [(field, raw)] else None)"

definition set_private_attribute_convertGet ::
  "(string \<Rightarrow> jsnum) \<Rightarrow> entity \<Rightarrow> string \<Rightarrow> error + out option" where
  "set_private_attribute_convertGet sn ent key =
     failed_to_read key
       (if key = ''ntc1_sensor_type''
          then get_enum ent 0x0001 ''resistanceValue1'' NTC_TYPE_INV ''ntc1_sensor_type''
        else if key = ''ntc2_sensor_type''
          then get_enum ent 0x0002 ''resistanceValue2'' NTC_TYPE_INV ''ntc2_sensor_type''
        else if key = ''water_alarm_relay_action''
          then get_enum ent 0x0006 ''waterAlarmRelayAction'' WATER_RELAY_ACTION_INV
                 ''water_alarm_relay_action''
        else if key = ''ntc1_operation_mode''
          then get_enum ent 0x0007 ''ntc1OperationSelect'' NTC1_OPERATION_INV
                 ''ntc1_operation_mode''
        else if key = ''ntc2_operation_mode''
          then get_enum ent 0x0008 ''ntc2OperationSelect'' NTC2_OPERATION_INV
                 ''ntc2_operation_mode''
        else if key = ''ntc1_relay_auto_temp''
          then get_relay_auto_temp sn ent 0x0009 ''ntc1RelayAutoTemp'' ''ntc1_relay_auto_temp''
        else if key = ''ntc2_relay_auto_temp''
          then get_relay_auto_temp sn ent 0x000A ''ntc2RelayAutoTemp'' ''ntc2_relay_auto_temp''
        else if key = ''override_option''
          then get_enum ent 0x000B ''overrideOption'' OVERRIDE_OPTION_INV ''override_option''
        else if key = ''ntc1_calibration''
          then get_number ent 0x0004 ''NTCCalibration1'' ''ntc1_calibration''
        else if key = ''ntc2_calibration''
          then get_number ent 0x0005 ''NTCCalibration2'' ''ntc2_calibration''
        else if key = ''ntc1_temp_hysteresis''
          then get_number ent 0x000C ''ntc1TempHysterisis'' ''ntc1_temp_hysteresis''
        else if key = ''ntc2_temp_hysteresis''
          then get_number ent 0x000D ''ntc2TempHysterisis'' ''ntc2_temp_hysteresis''
        else Inr None)"

section \<open>Writes: \<open>tzLocal.set_private_attribute.convertSet\<close>\<close>

text \<open>
  \<^verbatim>\<open>
  convertSet: async (entity, key, value, meta) => {
      let payload; let result;
      switch (key) {
          case 'ntc1_sensor_type':
              ({raw: payload, text: result} = parseEnumValue(value, NTC_TYPE_MAP, key));
              await entity.write(PRIVATE_CLUSTER_ID, {0x0001: {value: payload, type: DataType.ENUM8}});
              return {state: {ntc1_sensor_type: result}};
          ...
          case 'ntc1_relay_auto_temp':
              ({raw: payload, text: result} = parseNumeric(value, key, 100));
              await entity.write(PRIVATE_CLUSTER_ID, {0x0009: {value: payload, type: DataType.INT16}});
              return {state: {ntc1_relay_auto_temp: result}};
          ...
          case 'ntc1_calibration':
              ({raw: payload, text: result} = parseNumeric(value, key));
              await entity.write(PRIVATE_CLUSTER_ID, {0x0004: {value: payload, type: DataType.INT8}});
              return {state: {ntc1_calibration: result}};
          ...
          default:
              throw new Error(`[Namron4512785] unsupported set key ${key}`);
  \<close>
  The result is the error thrown, or what was written to the wire together with the
  state echoed to the host.
\<close>

record set_result =
  written :: wire_write
  echoed :: out

definition write_parsed ::
  "entity \<Rightarrow> string \<Rightarrow> nat \<Rightarrow> zcl_type \<Rightarrow> error + parsed \<Rightarrow> error + set_result" where
  "write_parsed ent key attr ty p =
     (case p of
        Inl err \<Rightarrow> Inl err
      | Inr pr \<Rightarrow>
          (let w = \<lparr>w_cluster = ClusterId PRIVATE_CLUSTER_ID, w_attribute = attr,
                    w_value = parsed_raw pr, w_type = ty\<rparr> in
           case ent_write ent w of
             Some err \<Rightarrow> Inl (TransportFailure err)
           | None \<Rightarrow> Inr \<lparr>written = w, echoed = [(key, parsed_text pr)]\<rparr>))"

definition convertSet ::
  "(string \<Rightarrow> jsnum) \<Rightarrow> entity \<Rightarrow> string \<Rightarrow> jsval \<Rightarrow> error + set_result" where
  "convertSet sn ent key value =
     (if key = ''ntc1_sensor_type''
        then write_parsed ent key 0x0001 ENUM8 (parseEnumValue value NTC_TYPE_MAP key)
      else if key = ''ntc2_sensor_type''
        then write_parsed ent key 0x0002 ENUM8 (parseEnumValue value NTC_TYPE_MAP key)
      else if key = ''water_alarm_relay_action''
        then write_parsed ent key 0x0006 ENUM8 (parseEnumValue value WATER_RELAY_ACTION_MAP key)
      else if key = ''ntc1_operation_mode''
        then write_parsed ent key 0x0007 ENUM8 (parseEnumValue value NTC1_OPERATION_MAP key)
      else if key = ''ntc2_operation_mode''
        then write_parsed ent key 0x0008 ENUM8 (parseEnumValue value NTC2_OPERATION_MAP key)
      else if key = ''ntc1_relay_auto_temp''
        then write_parsed ent key 0x0009 INT16 (parseNumeric sn value key (Fin 100))
      else if key = ''ntc2_relay_auto_temp''
        then write_parsed ent key 0x000A INT16 (parseNumeric sn value key (Fin 100))
      else if key = ''override_option''
        then write_parsed ent key 0x000B ENUM8 (parseEnumValue value OVERRIDE_OPTION_MAP key)
      else if key = ''ntc1_calibration''
        then write_parsed ent key 0x0004 INT8 (parseNumeric sn value key (Fin 1))
      else if key = ''ntc2_calibration''
        then write_parsed ent key 0x0005 INT8 (parseNumeric sn value key (Fin 1))
      else if key = ''ntc1_temp_hysteresis''
        then write_parsed ent key 0x000C INT8 (parseNumeric sn value key (Fin 1))
      else if key = ''ntc2_temp_hysteresis''
        then write_parsed ent key 0x000D INT8 (parseNumeric sn value key (Fin 1))
      else Inl (UnsupportedField key))"

section \<open>Devices and endpoints\<close>

record endpoint =
  ep_ID :: nat
  inputClusters :: "jsval list"

text \<open>
  Of a device the converter reads \<open>ieeeAddr\<close> and \<open>endpoints\<close>, either of which may
  be missing, and calls \<open>getEndpoint\<close>, the transport's lookup of an endpoint by its ID.
\<close>

record device =
  ieeeAddr :: "string option"
  endpoints :: "endpoint list option"

definition getEndpoint :: "device \<Rightarrow> nat \<Rightarrow> endpoint option" where
  "getEndpoint dev n =
     find (\<lambda>ep. ep_ID ep = n) (case endpoints dev of None \<Rightarrow> [] | Some eps \<Rightarrow> eps)"

text \<open>
  \<^verbatim>\<open>
  const findBestEndpoint = (device) => {
      const desired = [0x0006, 0x0002, 0x0402, 0x0B04, 0x0702];
      const eps = device.endpoints || [];
      const hasCluster = (ep, cid) => {
          const inputs = ep?.inputClusters || [];
          return inputs.includes?.(cid) || inputs.includes?.(String(cid));
      };
      const byDesired = eps.find((ep) => desired.some((cid) => hasCluster(ep, cid)));
      return byDesired || device.getEndpoint(1) || eps[0];
  };
  \<close>
\<close>

definition hasCluster :: "endpoint \<Rightarrow> nat \<Rightarrow> bool" where
  "hasCluster ep cid =
     (Num (Fin (of_nat cid)) \<in> set (inputClusters ep) \<or> Str (num_key cid) \<in> set (inputClusters ep))"

definition findBestEndpoint :: "device \<Rightarrow> endpoint option" where
  "findBestEndpoint dev =
     (let desired = [0x0006, 0x0002, 0x0402, 0x0B04, 0x0702];
          eps = (case endpoints dev of None \<Rightarrow> [] | Some eps \<Rightarrow> eps)
      in case find (\<lambda>ep. list_ex (hasCluster ep) desired) eps of
           Some ep \<Rightarrow> Some ep
         | None \<Rightarrow>
             (case getEndpoint dev 1 of
                Some ep \<Rightarrow> Some ep
              | None \<Rightarrow> (case eps of [] \<Rightarrow> None | ep # _ \<Rightarrow> Some ep)))"

section \<open>Polling: \<open>onEvent\<close>\<close>

text \<open>
  The process-wide state the handler works on: the registry
  \<open>globalThis.__namron4512785_poll__\<close>, a \<open>Map\<close> from a device's \<open>ieeeAddr\<close> to its
  timer, and the runtime's interval timers. A timer is known by its handle; the list
  \<open>timers\<close> holds the live ones, each with the address of the device its callback polls.
\<close>

record poll_world =
  registry :: "string \<rightharpoonup> nat"
  timers :: "(nat \<times> string) list"
  next_handle :: nat

definition setInterval :: "string \<Rightarrow> poll_world \<Rightarrow> nat \<times> poll_world" where
  "setInterval polled w =
     (next_handle w,
      w\<lparr>timers := timers w @ [(next_handle w, polled)], next_handle := Suc (next_handle w)\<rparr>)"

definition clearInterval :: "nat \<Rightarrow> poll_world \<Rightarrow> poll_world" where
  "clearInterval h w = w\<lparr>timers := filter (\<lambda>t. fst t \<noteq> h) (timers w)\<rparr>"

text \<open>
  The first argument of \<open>onEvent\<close> is the event's name, or an object with the properties
  \<open>type\<close> and \<open>device\<close>, or something else.
\<close>

datatype event_arg = EventName string | EventObject string "device option" | EventOther

text \<open>
  The address of the device when \<open>!eventDevice || !eventDevice.ieeeAddr\<close> is false: the
  device is there and its address is a string that is not empty.
\<close>

definition device_addr :: "device option \<Rightarrow> string option" where
  "device_addr dev =
     (case dev of
        None \<Rightarrow> None
      | Some d \<Rightarrow> (case ieeeAddr d of None \<Rightarrow> None | Some a \<Rightarrow> if a = [] then None else Some a))"

text \<open>
  \<^verbatim>\<open>
  onEvent: async (type, data, device) => {
      let eventType = type;
      let eventDevice = device;
      if (typeof type === 'object' && type !== null && 'type' in type) {
          eventType = type.type;
          eventDevice = type.device;
      }
      if (!eventDevice || !eventDevice.ieeeAddr || eventType === 'start' || eventType === 'stop') {
          return;
      }
      const key = eventDevice.ieeeAddr;
      const g = globalThis;
      g.__namron4512785_poll__ = g.__namron4512785_poll__ || new Map();
      if (eventType === 'stop') {
          if (g.__namron4512785_poll__.has(key)) {
              clearInterval(g.__namron4512785_poll__.get(key));
              g.__namron4512785_poll__.delete(key);
          }
          return;
      }
      if (g.__namron4512785_poll__.has(key)) return;
      const intervalMs = 60000;
      const timer = setInterval(async () => { ... }, intervalMs);
      g.__namron4512785_poll__.set(key, timer);
  },
  \<close>
  The argument \<open>data\<close> is not used. What a tick of the timer reads is not modelled.
\<close>

fun eventType_of :: "event_arg \<Rightarrow> string option" where
  "eventType_of (EventName t) = Some t"
| "eventType_of (EventObject t d) = Some t"
| "eventType_of EventOther = None"

fun eventDevice_of :: "event_arg \<Rightarrow> device option \<Rightarrow> device option" where
  "eventDevice_of (EventObject t d) dev = d"
| "eventDevice_of type dev = dev"

definition onEvent :: "event_arg \<Rightarrow> device option \<Rightarrow> poll_world \<Rightarrow> poll_world" where
  "onEvent type dev w =
     (let eventType = eventType_of type;
          eventDevice = eventDevice_of type dev
      in case device_addr eventDevice of
           None \<Rightarrow> w
         | Some key \<Rightarrow>
             if eventType = Some ''start'' \<or> eventType = Some ''stop'' then w
             else if eventType = Some ''stop''
             then (case registry w key of
                     Some h \<Rightarrow> (clearInterval h w)\<lparr>registry := (registry w)(key := None)\<rparr>
                   | None \<Rightarrow> w)
             else if registry w key \<noteq> None then w
             else
               (let (timer, w') = setInterval key w
                in w'\<lparr>registry := (registry w')(key \<mapsto> timer)\<rparr>))"

text \<open>The live timers that poll the device with address \<open>key\<close>.\<close>

definition timers_of :: "poll_world \<Rightarrow> string \<Rightarrow> nat list" where
  "timers_of w key = map fst (filter (\<lambda>t. snd t = key) (timers w))"

text \<open>
  The registry and the timers agree: a registered device has exactly its registered timer
  live, an unregistered device has none, and no live timer has a handle still to be issued.
\<close>

definition consistent :: "poll_world \<Rightarrow> bool" where
  "consistent w =
     ((\<forall>key. timers_of w key = (case registry w key of None \<Rightarrow> [] | Some h \<Rightarrow> [h]))
      \<and> (\<forall>t \<in> set (timers w). fst t < next_handle w))"

section \<open>Device setup: \<open>configure\<close>\<close>

text \<open>
  The calls \<open>configure\<close> makes on the transport. Each may reject; what rejects is the
  environment's choice, a function from the call to the message it rejects with.
\<close>

record report_item =
  attribute :: nat
  minimumReportInterval :: nat
  maximumReportInterval :: nat
  reportableChange :: nat

datatype call =
    Bind "string list"
  | ReportingHelper string "(nat \<times> nat \<times> nat) option"
  | ConfigureReporting nat "report_item list"
  | Read cluster "nat list"

datatype level = Info | Warn | Err

record setup_world =
  calls :: "call list"
  logged :: "(level \<times> string) list"

text \<open>
  A statement runs on the world and completes (\<open>None\<close>) or throws a message. \<open>seq\<close>
  runs statements in order and stops at the first that throws; \<open>try_catch\<close> is
  \<open>try { body } catch (err) { handler(err) }\<close>.
\<close>

type_synonym stmt = "setup_world \<Rightarrow> string option \<times> setup_world"

definition transport :: "(call \<Rightarrow> string option) \<Rightarrow> call \<Rightarrow> stmt" where
  "transport env c w = (env c, w\<lparr>calls := calls w @ [c]\<rparr>)"

definition say :: "level \<Rightarrow> string \<Rightarrow> stmt" where
  "say l text w = (None, w\<lparr>logged := logged w @ [(l, text)]\<rparr>)"

definition throw :: "string \<Rightarrow> stmt" where
  "throw err w = (Some err, w)"

fun seq :: "stmt list \<Rightarrow> stmt" where
  "seq [] w = (None, w)"
| "seq (s # ss) w = (case s w of (None, w') \<Rightarrow> seq ss w' | (Some err, w') \<Rightarrow> (Some err, w'))"

definition try_catch :: "stmt \<Rightarrow> (string \<Rightarrow> stmt) \<Rightarrow> stmt" where
  "try_catch body handler w =
     (case body w of (None, w') \<Rightarrow> (None, w') | (Some err, w') \<Rightarrow> handler err w')"

text \<open>
  \<^verbatim>\<open>
  const safeRead = async (cluster, attrs, label) => {
      try {
          await endpoint.read(cluster, attrs);
          L.info(`[Namron4512785] initial read OK for ${label}`);
      } catch (err) {
          L.warn(`[Namron4512785] initial read failed for ${label}: ${err}`);
      }
  };
  \<close>
\<close>

definition safeRead :: "(call \<Rightarrow> string option) \<Rightarrow> cluster \<Rightarrow> nat list \<Rightarrow> string \<Rightarrow> stmt" where
  "safeRead env c attrs label =
     try_catch
       (seq [transport env (Read c attrs), say Info (''initial read OK for '' @ label)])
       (\<lambda>err. say Warn (''initial read failed for '' @ label @ '': '' @ err))"

text \<open>
  \<open>try { await reporting.<helper>(endpoint, options); } catch (err) { L.warn(...); }\<close>
\<close>

definition try_report ::
  "(call \<Rightarrow> string option) \<Rightarrow> string \<Rightarrow> (nat \<times> nat \<times> nat) option \<Rightarrow> string \<Rightarrow> stmt" where
  "try_report env helper opts label =
     try_catch (transport env (ReportingHelper helper opts))
       (\<lambda>err. say Warn (label @ '' rpt failed: '' @ err))"

text \<open>
  \<^verbatim>\<open>
  configure: async (device, coordinatorEndpoint, logger) => {
      const L = mkLogger(logger);
      L.info(...); L.info(`... Converter v${CONVERTER_VERSION} build ${CONVERTER_BUILD}`); L.info(...);
      L.warn(`... DEVICE INFO: modelID=... manufacturerName=... ieeeAddr=...`);
      L.warn(`... DEVICE INFO: endpoints=${device.endpoints.map(ep => ep.ID).join(',')}`);
      const endpoint = findBestEndpoint(device);
      if (!endpoint) {
          L.error('[Namron4512785] no endpoint available on device');
          return;
      }
      L.info(`[Namron4512785] using endpoint ${endpoint.ID}`);
      try {
          await reporting.bind(endpoint, coordinatorEndpoint, ['genOnOff', 'genDeviceTempCfg',
              'msTemperatureMeasurement', 'haElectricalMeasurement', 'seMetering']);
      } catch (err) { L.warn(`[Namron4512785] bind failed: ${err}`); }
      try { await reporting.onOff(endpoint); } catch (err) { L.warn(`... onOff rpt failed: ${err}`); }
      try { await reporting.temperature(endpoint, {min: 15, max: 600, change: 10}); } catch ...
      try { await reporting.rmsVoltage(endpoint, {min: 10, max: 3600, change: 1}); } catch ...
      try { await reporting.rmsCurrent(endpoint, {min: 10, max: 3600, change: 10}); } catch ...
      try { await reporting.activePower(endpoint, {min: 10, max: 3600, change: 5}); } catch ...
      try { await endpoint.configureReporting(0x0002, [{attribute: 0x0000, minimumReportInterval: 15,
                maximumReportInterval: 600, reportableChange: 10}]);
      } catch (err) { L.warn(`... device temp rpt failed: ${err}`); }
      try { await endpoint.configureReporting(0x0702, [{attribute: 0x0000, minimumReportInterval: 30,
                maximumReportInterval: 3600, reportableChange: 1}]);
      } catch (err) { L.warn(`... metering rpt failed: ${err}`); }
      L.info('[Namron4512785] Skipping 0x0402 reporting config - using device defaults');
      try {
          await endpoint.configureReporting(0x04E0, [
              {attribute: 0x0000, minimumReportInterval: 15, maximumReportInterval: 600, reportableChange: 10},
              {attribute: 0x0003, minimumReportInterval: 1, maximumReportInterval: 300, reportableChange: 1}]);
          L.info('[Namron4512785] configured reporting for private cluster 0x04E0');
      } catch (err) { L.warn(`... private cluster 0x04E0 reporting failed (may not be supported): ${err}`); }
      const safeRead = ...;
      await safeRead('genOnOff', [0x0000], 'genOnOff:0x0000');
      await safeRead('genDeviceTempCfg', [0x0000], 'genDeviceTempCfg:0x0000');
      await safeRead('msTemperatureMeasurement', [0x0000], 'msTemperatureMeasurement:0x0000');
      await safeRead('haElectricalMeasurement', [0x0505, 0x0508, 0x050B], 'haElectricalMeasurement:volt/curr/power');
      await safeRead('seMetering', [0x0000], 'seMetering:energy');
      await safeRead(0x04E0, [0x0000, 0x0003], '0x04E0:ntc2_temp/water_sensor');
      await safeRead(0x04E0, [0x0001, 0x0002], '0x04E0:ntc1_type/ntc2_type');
      await safeRead(0x04E0, [0x0007, 0x0008], '0x04E0:ntc1_operation/ntc2_operation');
      L.info('... IMPORTANT: Set ntc1_sensor_type and ntc2_sensor_type (r1-r6) to enable temperature reporting!');
  },
  \<close>
  Messages are kept without their prefix and without the device's fields. Which sink of
  the logger a message reaches (\<open>mkLogger\<close>) is not modelled. \<open>device.endpoints.map\<close>
  throws a TypeError when the device has no \<open>endpoints\<close>.
\<close>

definition bind_clusters :: "string list" where
  "bind_clusters =
     [''genOnOff'', ''genDeviceTempCfg'', ''msTemperatureMeasurement'',
      ''haElectricalMeasurement'', ''seMetering'']"

definition configure :: "(call \<Rightarrow> string option) \<Rightarrow> device \<Rightarrow> stmt" where
  "configure env dev =
     seq
       [say Info ''========================================'',
        say Info ''Converter v1.4.0 build 2025-11-28-012'',
        say Info ''========================================'',
        say Warn ''DEVICE INFO: modelID manufacturerName ieeeAddr'',
        (case endpoints dev of
           None \<Rightarrow> throw ''TypeError''
         | Some eps \<Rightarrow> say Warn ''DEVICE INFO: endpoints''),
        (case findBestEndpoint dev of
           None \<Rightarrow> say Err ''no endpoint available on device''
         | Some ep \<Rightarrow>
             seq
               [say Info ''using endpoint'',
                try_catch (transport env (Bind bind_clusters))
                  (\<lambda>err. say Warn (''bind failed: '' @ err)),
                try_report env ''onOff'' None ''onOff'',
                try_report env ''temperature'' (Some (15, 600, 10)) ''temp'',
                try_report env ''rmsVoltage'' (Some (10, 3600, 1)) ''volt'',
                try_report env ''rmsCurrent'' (Some (10, 3600, 10)) ''curr'',
                try_report env ''activePower'' (Some (10, 3600, 5)) ''power'',
                try_catch
                  (transport env (ConfigureReporting 0x0002
                     [\<lparr>attribute = 0x0000, minimumReportInterval = 15,
                       maximumReportInterval = 600, reportableChange = 10\<rparr>]))
                  (\<lambda>err. say Warn (''device temp rpt failed: '' @ err)),
                try_catch
                  (transport env (ConfigureReporting 0x0702
                     [\<lparr>attribute = 0x0000, minimumReportInterval = 30,
                       maximumReportInterval = 3600, reportableChange = 1\<rparr>]))
                  (\<lambda>err. say Warn (''metering rpt failed: '' @ err)),
                say Info ''Skipping 0x0402 reporting config - using device defaults'',
                try_catch
                  (seq
                     [transport env (ConfigureReporting 0x04E0
                        [\<lparr>attribute = 0x0000, minimumReportInterval = 15,
                          maximumReportInterval = 600, reportableChange = 10\<rparr>,
                         \<lparr>attribute = 0x0003, minimumReportInterval = 1,
                          maximumReportInterval = 300, reportableChange = 1\<rparr>]),
                      say Info ''configured reporting for private cluster 0x04E0''])
                  (\<lambda>err. say Warn
                     (''private cluster 0x04E0 reporting failed (may not be supported): '' @ err)),
                safeRead env (ClusterName ''genOnOff'') [0x0000] ''genOnOff:0x0000'',
                safeRead env (ClusterName ''genDeviceTempCfg'') [0x0000] ''genDeviceTempCfg:0x0000'',
                safeRead env (ClusterName ''msTemperatureMeasurement'') [0x0000]
                  ''msTemperatureMeasurement:0x0000'',
                safeRead env (ClusterName ''haElectricalMeasurement'') [0x0505, 0x0508, 0x050B]
                  ''haElectricalMeasurement:volt/curr/power'',
                safeRead env (ClusterName ''seMetering'') [0x0000] ''seMetering:energy'',
                safeRead env (ClusterId 0x04E0) [0x0000, 0x0003] ''0x04E0:ntc2_temp/water_sensor'',
                safeRead env (ClusterId 0x04E0) [0x0001, 0x0002] ''0x04E0:ntc1_type/ntc2_type'',
                safeRead env (ClusterId 0x04E0) [0x0007, 0x0008]
                  ''0x04E0:ntc1_operation/ntc2_operation'',
                say Info ''IMPORTANT: Set ntc1_sensor_type and ntc2_sensor_type (r1-r6) to enable temperature reporting!''])]"

text \<open>The setup steps after the binding step, in the order of the source.\<close>

definition reporting_calls :: "call list" where
  "reporting_calls =
     [ReportingHelper ''onOff'' None,
      ReportingHelper ''temperature'' (Some (15, 600, 10)),
      ReportingHelper ''rmsVoltage'' (Some (10, 3600, 1)),
      ReportingHelper ''rmsCurrent'' (Some (10, 3600, 10)),
      ReportingHelper ''activePower'' (Some (10, 3600, 5)),
      ConfigureReporting 0x0002
        [\<lparr>attribute = 0x0000, minimumReportInterval = 15,
          maximumReportInterval = 600, reportableChange = 10\<rparr>],
      ConfigureReporting 0x0702
        [\<lparr>attribute = 0x0000, minimumReportInterval = 30,
          maximumReportInterval = 3600, reportableChange = 1\<rparr>],
      ConfigureReporting 0x04E0
        [\<lparr>attribute = 0x0000, minimumReportInterval = 15,
          maximumReportInterval = 600, reportableChange = 10\<rparr>,
         \<lparr>attribute = 0x0003, minimumReportInterval = 1,
          maximumReportInterval = 300, reportableChange = 1\<rparr>]]"

definition seed_reads :: "call list" where
  "seed_reads =
     [Read (ClusterName ''genOnOff'') [0x0000],
      Read (ClusterName ''genDeviceTempCfg'') [0x0000],
      Read (ClusterName ''msTemperatureMeasurement'') [0x0000],
      Read (ClusterName ''haElectricalMeasurement'') [0x0505, 0x0508, 0x050B],
      Read (ClusterName ''seMetering'') [0x0000],
      Read (ClusterId 0x04E0) [0x0000, 0x0003],
      Read (ClusterId 0x04E0) [0x0001, 0x0002],
      Read (ClusterId 0x04E0) [0x0007, 0x0008]]"

section \<open>The earlier snapshot \<open>namron_30a_relay.mjs\<close>\<close>

text \<open>
  The repository also holds an earlier revision of the converter. Where its functions
  differ from the ones above in what they compute, they are given here under the same
  name with the suffix \<open>_mjs\<close>.
  \<^verbatim>\<open>
  // metering_num
  const key = pick(msg.data, [0x0000, 'currentSummationDelivered']);
  ...  if (typeof raw === 'number') { return {energy: Math.round((raw / 1000) * 1000) / 1000}; }
  // electrical_num
  if (voltKey !== undefined) out.voltage = Math.round((msg.data[voltKey] / 10) * 10) / 10;
  if (currKey !== undefined) out.current = Math.round((msg.data[currKey] / 1000) * 1000) / 1000;
  if (powKey  !== undefined) out.power = Math.round((msg.data[powKey] / 10) * 10) / 10;
  // private_04e0_num, attribute 0x0003
  out.water_sensor = !!raw;
  // get_attribute, case 'device_temperature'
  val = Math.round((raw/10)*10)/10; return {state: {device_temperature: val}};
  \<close>
\<close>

definition metering_num_convert_mjs :: "(string \<Rightarrow> jsnum) \<Rightarrow> msg \<Rightarrow> out option" where
  "metering_num_convert_mjs sn m =
     (case msg_data m of
        None \<Rightarrow> None
      | Some data \<Rightarrow>
          (case pick data [num_key 0x0000, ''currentSummationDelivered''] of
             None \<Rightarrow> None
           | Some key \<Rightarrow>
               (let raw = index data (Some key) in
                if is_number raw
                then Some [(''energy'', Num (scaled (ToNumber sn raw) 1000 1000))]
                else None)))"

definition electrical_num_convert_mjs :: "(string \<Rightarrow> jsnum) \<Rightarrow> msg \<Rightarrow> out option" where
  "electrical_num_convert_mjs sn m =
     (case msg_data m of
        None \<Rightarrow> None
      | Some data \<Rightarrow>
          (let out = [];
               voltKey = pick data [num_key 0x0505, ''rmsVoltage''];
               currKey = pick data [num_key 0x0508, ''rmsCurrent''];
               powKey = pick data [num_key 0x050B, ''activePower''];
               out = (if voltKey \<noteq> None
                      then assign ''voltage''
                             (Num (scaled (ToNumber sn (index data voltKey)) 10 10)) out
                      else out);
               out = (if currKey \<noteq> None
                      then assign ''current''
                             (Num (scaled (ToNumber sn (index data currKey)) 1000 1000)) out
                      else out);
               out = (if powKey \<noteq> None
                      then assign ''power''
                             (Num (scaled (ToNumber sn (index data powKey)) 10 10)) out
                      else out)
           in if out \<noteq> [] then Some out else None))"

definition water_sensor_handler_mjs :: "jsval \<Rightarrow> out \<Rightarrow> out" where
  "water_sensor_handler_mjs raw out = assign ''water_sensor'' (Bool (truthy raw)) out"

definition get_device_temperature_mjs :: "(string \<Rightarrow> jsnum) \<Rightarrow> entity \<Rightarrow> string + out option" where
  "get_device_temperature_mjs sn ent =
     read_raw ent (ClusterName ''genDeviceTempCfg'') [0x0000]
       [num_key 0x0000, ''currentTemperature'']
       (\<lambda>raw. if raw \<noteq> Undefined \<and> raw \<noteq> Null \<and> not_sentinel raw
              then Some [(''device_temperature'', Num (scaled (ToNumber sn raw) 10 10))]
              else None)"

text \<open>
  \<^verbatim>\<open>
  onEvent: async (type, data, device) => {
      const key = device?.ieeeAddr;
      if (!key) return;
      const g = globalThis;
      g.__namron4512785_poll__ = g.__namron4512785_poll__ || new Map();
      if (type === 'start' || type === 'deviceAnnounce') {
          if (g.__namron4512785_poll__.has(key)) return;
          const intervalMs = 60000; // 60s
          const timer = setInterval(async () => { ... }, intervalMs);
          g.__namron4512785_poll__.set(key, timer);
      }
      if (type === 'stop') {
          const timer = g.__namron4512785_poll__.get(key);
          if (timer) clearInterval(timer);
          g.__namron4512785_poll__.delete(key);
      }
  },
  \<close>
  A timer's handle is truthy.
\<close>

definition onEvent_mjs :: "event_arg \<Rightarrow> device option \<Rightarrow> poll_world \<Rightarrow> poll_world" where
  "onEvent_mjs type dev w =
     (case device_addr dev of
        None \<Rightarrow> w
      | Some key \<Rightarrow>
          if type = EventName ''start'' \<or> type = EventName ''deviceAnnounce''
          then (if registry w key \<noteq> None then w
                else
                  (let (timer, w') = setInterval key w
                   in w'\<lparr>registry := (registry w')(key \<mapsto> timer)\<rparr>))
          else if type = EventName ''stop''
          then (let w' = (case registry w key of Some h \<Rightarrow> clearInterval h w | None \<Rightarrow> w)
                in w'\<lparr>registry := (registry w')(key := None)\<rparr>)
          else w)"

text \<open>
  The earlier snapshot's table of probe types (its other tables differ in their labels
  likewise):
  \<^verbatim>\<open>
  const NTC_TYPE_MAP = {none: 0, ntc_10k: 1, ntc_12k: 2, ntc_15k: 3, ntc_22k: 4,
                        ntc_33k: 5, ntc_47k: 6};
  \<close>
\<close>

definition NTC_TYPE_MAP_mjs :: enum_map where
  "NTC_TYPE_MAP_mjs =
     [(''none'', 0), (''ntc_10k'', 1), (''ntc_12k'', 2), (''ntc_15k'', 3),
      (''ntc_22k'', 4), (''ntc_33k'', 5), (''ntc_47k'', 6)]"

section \<open>Notions of the specification\<close>

text \<open>
  Rounding to \<open>d\<close> decimal places, in the specification's words: multiply by
  \<open>10\<^sup>d\<close>, round to the nearest integer (a tie upwards), divide by \<open>10\<^sup>d\<close>.
\<close>

definition round_to :: "nat \<Rightarrow> rat \<Rightarrow> rat" where
  "round_to d x = of_int (round (x * 10 ^ d)) / 10 ^ d"

text \<open>
  An attribute report \<open>data\<close> delivers the raw value \<open>v\<close> for an attribute with the
  ordered aliases \<open>aliases\<close>: the first alias that is a property of \<open>data\<close> holds
  \<open>v\<close>.
\<close>

definition delivers :: "obj \<Rightarrow> string list \<Rightarrow> jsval \<Rightarrow> bool" where
  "delivers data aliases v = (\<exists>key. pick data aliases = Some key \<and> data key = Some v)"

text \<open>
  A read of the attributes \<open>attrs\<close> of cluster \<open>c\<close> answers with the raw value \<open>v\<close>:
  it resolves with an attribute set that delivers \<open>v\<close>.
\<close>

definition answers :: "entity \<Rightarrow> cluster \<Rightarrow> nat list \<Rightarrow> string list \<Rightarrow> jsval \<Rightarrow> bool" where
  "answers ent c attrs aliases v =
     (\<exists>res. ent_read ent c attrs = Inr res \<and> delivers res aliases v)"

text \<open>The raw values that mean "no reading".\<close>

definition is_sentinel :: "jsval \<Rightarrow> bool" where
  "is_sentinel v = (v = Num (Fin (- 32768)) \<or> v = Num (Fin 0x8000))"

text \<open>The value of a field of a decoded state, if the decode produced one.\<close>

definition field_of :: "out option \<Rightarrow> string \<Rightarrow> jsval option" where
  "field_of st k = (case st of None \<Rightarrow> None | Some out \<Rightarrow> map_of out k)"

text \<open>
  The JavaScript number that a decimal numeral such as \<open>284.27\<close> denotes: the binary64
  value nearest to it.
\<close>

definition decimal :: "rat \<Rightarrow> jsval" where
  "decimal d = Num (fl d)"

text \<open>A rational that is a binary64 value: rounding leaves it as it is.\<close>

definition is_double :: "rat \<Rightarrow> bool" where
  "is_double x = (fl x = Fin x)"

text \<open>
  Rounding half away from zero, in the specification's words: the nearest integer, a tie
  going to the integer of larger magnitude.
\<close>

definition round_half_away :: "rat \<Rightarrow> int" where
  "round_half_away x = (if 0 \<le> x then \<lfloor>x + 1 / 2\<rfloor> else \<lceil>x - 1 / 2\<rceil>)"

text \<open>
  An enumeration table round-trips: every label encodes to its code and echoes itself,
  and the code decodes to the label through the inverted table.
\<close>

definition roundtrips :: "enum_map \<Rightarrow> obj \<Rightarrow> bool" where
  "roundtrips m tbl =
     (\<forall>(l, c) \<in> set m.
        (\<forall>fld. parseEnumValue (Str l) m fld
                 = Inr \<lparr>parsed_raw = Num (Fin (of_nat c)), parsed_text = Str l\<rparr>)
        \<and> label_or_raw tbl (Num (Fin (of_nat c))) = Str l)"

text \<open>
  For the examples: a runtime whose strings all convert to NaN (no example converts a
  string), and an entity that answers every read with \<open>res\<close> and accepts every write.
\<close>

definition no_numeric_strings :: "string \<Rightarrow> jsnum" where
  "no_numeric_strings s = NaN"

definition answering :: "obj \<Rightarrow> entity" where
  "answering res = \<lparr>ent_read = (\<lambda>c attrs. Inr res), ent_write = (\<lambda>w. None)\<rparr>"

text \<open>
  An event that starts polling the device with address \<open>key\<close>: it carries that device,
  and it is neither \<open>start\<close> nor \<open>stop\<close>, the two events \<open>onEvent\<close> returns on
  at once. \<open>deviceAnnounce\<close> is such an event.
\<close>

definition starts_polling :: "event_arg \<Rightarrow> device option \<Rightarrow> string \<Rightarrow> bool" where
  "starts_polling type dev key =
     (device_addr (eventDevice_of type dev) = Some key
      \<and> eventType_of type \<noteq> Some ''start'' \<and> eventType_of type \<noteq> Some ''stop'')"

text \<open>For the examples: a device with an address, and the world before any event.\<close>

definition device_at :: "string \<Rightarrow> device" where
  "device_at a = \<lparr>ieeeAddr = Some a, endpoints = Some []\<rparr>"

definition idle_world :: poll_world where
  "idle_world = \<lparr>registry = Map.empty, timers = [], next_handle = 0\<rparr>"

text \<open>
  A statement completes with the calls \<open>cs\<close>: from every world it returns without
  throwing, having made exactly the calls \<open>cs\<close>, in this order.
\<close>

definition completes :: "stmt \<Rightarrow> call list \<Rightarrow> bool" where
  "completes s cs = (\<forall>w. fst (s w) = None \<and> calls (snd (s w)) = calls w @ cs)"

text \<open>
  For the examples: a transport on which the binding step throws and every other call
  succeeds, and a device with one endpoint that has the on/off cluster.
\<close>

definition bind_throws :: "call \<Rightarrow> string option" where
  "bind_throws c = (case c of Bind cs \<Rightarrow> Some ''Error: bind seMetering failed'' | _ \<Rightarrow> None)"

definition relay :: device where
  "relay = \<lparr>ieeeAddr = Some ''0x00124b0001'',
            endpoints = Some [\<lparr>ep_ID = 1, inputClusters = [Num (Fin 6), Num (Fin 1794)]\<rparr>]\<rparr>"

section \<open>Facts about the value model\<close>

text \<open>Evaluating \<open>\<lfloor>_\<rfloor>\<close>, and so \<open>round\<close>, on rational numerals.\<close>

lemma floor_rat_numeral [simp]:
  "\<lfloor>(numeral a :: rat) / numeral b\<rfloor> = numeral a div numeral b"
  by (metis floor_divide_of_int_eq of_int_numeral)

lemma floor_rat_neg_numeral [simp]:
  "\<lfloor>- (numeral a :: rat) / numeral b\<rfloor> = - numeral a div numeral b"
  by (metis floor_divide_of_int_eq of_int_numeral of_int_minus)

lemma floor_rat_neg_divide [simp]:
  "\<lfloor>- ((numeral a :: rat) / numeral b)\<rfloor> = - numeral a div numeral b"
  by (metis floor_rat_neg_numeral minus_divide_left)

lemma floor_rat_one_divide [simp]: "\<lfloor>(1 :: rat) / numeral b\<rfloor> = 1 div numeral b"
  by (metis floor_divide_of_int_eq of_int_numeral of_int_1)

named_theorems num_keys \<open>the decimal renderings of the attribute identifiers\<close>

lemma num_key_0 [num_keys]: "num_key 0x0000 = ''0''"
  by (simp add: num_key.simps digit_def)

lemma num_key_private [num_keys]:
  "num_key (Suc 0) = ''1''"
  "num_key 0x0001 = ''1''"
  "num_key 0x0002 = ''2''"
  "num_key 0x0003 = ''3''"
  "num_key 0x0004 = ''4''"
  "num_key 0x0005 = ''5''"
  "num_key 0x0006 = ''6''"
  "num_key 0x0007 = ''7''"
  "num_key 0x0008 = ''8''"
  "num_key 0x0009 = ''9''"
  "num_key 0x000A = ''10''"
  "num_key 0x000B = ''11''"
  "num_key 0x000C = ''12''"
  "num_key 0x000D = ''13''"
  "num_key 0x000E = ''14''"
  "num_key 0x000F = ''15''"
  "num_key 0x0010 = ''16''"
  by (simp_all add: num_key.simps digit_def)

lemma num_key_0505 [num_keys]: "num_key 0x0505 = ''1285''"
  by (simp add: num_key.simps digit_def)

lemma num_key_0508 [num_keys]: "num_key 0x0508 = ''1288''"
  by (simp add: num_key.simps digit_def)

lemma num_key_050B [num_keys]: "num_key 0x050B = ''1291''"
  by (simp add: num_key.simps digit_def)

lemma index_pick: "pick data ks = Some k \<Longrightarrow> data k = Some v \<Longrightarrow> index data (Some k) = v"
  by (simp add: index_def)

section \<open>Facts about objects and handlers\<close>

lemma delivers_index: "delivers data aliases v \<Longrightarrow> index data (pick data aliases) = v"
  by (auto simp add: delivers_def index_def)

lemma delivers_pick: "delivers data aliases v \<Longrightarrow> pick data aliases \<noteq> None"
  by (auto simp add: delivers_def)

lemma hasAny_pick: "hasAny data ks = (pick data ks \<noteq> None)"
  by (auto simp add: hasAny_def pick_def list_ex_iff find_None_iff)

lemma map_of_assign: "map_of (assign k v out) = (map_of out)(k \<mapsto> v)"
  by (simp add: assign_def update_conv')

lemma assign_not_Nil: "assign k v out \<noteq> []"
  by (simp add: assign_def)

lemma field_of_result: "field_of (if out \<noteq> [] then Some out else None) k = map_of out k"
  by (simp add: field_of_def)

text \<open>A handler of the private cluster leaves the fields of the other handlers alone.\<close>

lemma mapAndAssign_other:
  "(\<And>raw out. map_of (h raw out) k = map_of out k)
   \<Longrightarrow> map_of (mapAndAssign data a als h out) k = map_of out k"
  by (simp add: mapAndAssign_def)

lemma temperature_handler_other:
  "f \<noteq> k \<Longrightarrow> map_of (temperature_handler sn f raw out) k = map_of out k"
  by (simp add: temperature_handler_def map_of_assign)

lemma enum_handler_other: "f \<noteq> k \<Longrightarrow> map_of (enum_handler tbl f raw out) k = map_of out k"
  by (simp add: enum_handler_def map_of_assign)

lemma number_handler_other: "f \<noteq> k \<Longrightarrow> map_of (number_handler f raw out) k = map_of out k"
  by (simp add: number_handler_def map_of_assign)

lemma flag_handler_other: "f \<noteq> k \<Longrightarrow> map_of (flag_handler f raw out) k = map_of out k"
  by (simp add: flag_handler_def map_of_assign)

lemma water_sensor_handler_other:
  "''water_sensor'' \<noteq> k \<Longrightarrow> map_of (water_sensor_handler raw out) k = map_of out k"
  by (simp add: water_sensor_handler_def map_of_assign)

lemmas handler_other =
  mapAndAssign_other temperature_handler_other enum_handler_other number_handler_other
  flag_handler_other water_sensor_handler_other

lemmas private_convert_unfold =
  private_04e0_num_convert_def Let_def msg.simps option.case field_of_result

section \<open>The decimals of a scale factor\<close>

text \<open>
  \<open>rlog10\<close> is \<open>Math.max(Math.round(Math.log10(s)), 0)\<close> on the positive
  rationals, with the logarithm and the rounding taken in the reals.
\<close>

lemma round_minus_one: "round (x - 1 :: real) = round x - 1"
  unfolding round_def by linarith

lemma rlog10_is_log:
  "0 < s \<Longrightarrow> int (rlog10 s) = max 0 (round (log 10 (real_of_rat s)))"
proof (induction s rule: rlog10.induct)
  case (1 s)
  let ?x = "real_of_rat s"
  have pos: "0 < ?x"
    using "1.prems" by simp
  have sq: "log 10 (?x * ?x) = 2 * log 10 ?x"
    using pos by (simp add: log_mult)
  show ?case
  proof (cases "s * s < 10")
    case True
    then have "?x * ?x < 10"
      by (metis of_rat_less of_rat_mult of_rat_numeral_eq)
    then have "log 10 (?x * ?x) < log 10 10"
      using pos by (subst log_less_cancel_iff) simp_all
    with sq have "log 10 ?x < 1 / 2"
      by simp
    then have "round (log 10 ?x) \<le> 0"
      unfolding round_def by linarith
    with True show ?thesis
      by (simp add: rlog10.simps)
  next
    case False
    then have "10 \<le> ?x * ?x"
      by (metis not_less of_rat_less_eq of_rat_mult of_rat_numeral_eq)
    then have "log 10 10 \<le> log 10 (?x * ?x)"
      using pos by (subst log_le_cancel_iff) simp_all
    with sq have h: "1 / 2 \<le> log 10 ?x"
      by simp
    then have r: "1 \<le> round (log 10 ?x)"
      unfolding round_def by linarith
    have e1: "real_of_rat (s / 10) = ?x / 10"
      by (simp add: of_rat_divide)
    have e2: "log 10 (?x / 10) = log 10 ?x - log 10 10"
      using pos by (subst log_divide) simp_all
    have "log 10 (real_of_rat (s / 10)) = log 10 ?x - 1"
      unfolding e1 e2 by simp
    then have "round (log 10 (real_of_rat (s / 10))) = round (log 10 ?x) - 1"
      by (simp add: round_minus_one)
    moreover have "int (rlog10 (s / 10)) = max 0 (round (log 10 (real_of_rat (s / 10))))"
      using "1.IH" "1.prems" False by simp
    moreover have "rlog10 s = Suc (rlog10 (s / 10))"
      using False "1.prems" by (simp add: rlog10.simps)
    ultimately show ?thesis
      using r by simp
  qed
qed

lemma rlog10_100: "rlog10 100 = 2"
  by (simp add: rlog10.simps)

section \<open>Facts about binary64 rounding\<close>

lemmas fl_eval =
  fl_def ilog2_def ilog2_up.simps ilog2_down.simps round_half_even_def Let_def decimal_def

lemma ilog2_up_bounds: "1 \<le> x \<Longrightarrow> 2 ^ ilog2_up x \<le> x \<and> x < 2 ^ Suc (ilog2_up x)"
proof (induction x rule: ilog2_up.induct)
  case (1 x)
  show ?case
  proof (cases "x < 2")
    case True
    with "1.prems" show ?thesis
      by (simp add: ilog2_up.simps)
  next
    case False
    then have "1 \<le> x / 2"
      by simp
    with "1.IH" False have "2 ^ ilog2_up (x / 2) \<le> x / 2 \<and> x / 2 < 2 ^ Suc (ilog2_up (x / 2))"
      by simp
    moreover have "ilog2_up x = Suc (ilog2_up (x / 2))"
      using False by (simp add: ilog2_up.simps)
    ultimately show ?thesis
      by simp
  qed
qed

lemma ilog2_down_bounds:
  "0 < x \<Longrightarrow> x < 1 \<Longrightarrow> 1 \<le> x * 2 ^ ilog2_down x \<and> x * 2 ^ ilog2_down x < 2"
proof (induction x rule: ilog2_down.induct)
  case (1 x)
  have step: "ilog2_down x = Suc (ilog2_down (2 * x))"
    using "1.prems" by (simp add: ilog2_down.simps)
  show ?case
  proof (cases "2 * x < 1")
    case True
    with "1.IH" "1.prems"
    have "1 \<le> 2 * x * 2 ^ ilog2_down (2 * x) \<and> 2 * x * 2 ^ ilog2_down (2 * x) < 2"
      by simp
    with step show ?thesis
      by (simp add: mult.assoc mult.left_commute)
  next
    case False
    then have "ilog2_down (2 * x) = 0"
      by (simp add: ilog2_down.simps)
    with step False "1.prems" show ?thesis
      by simp
  qed
qed

lemma ilog2_bounds:
  assumes "0 < x"
  shows "2 powi ilog2 x \<le> x" and "x < 2 powi (ilog2 x + 1)"
proof -
  show "2 powi ilog2 x \<le> x"
  proof (cases "1 \<le> x")
    case True
    then show ?thesis
      using ilog2_up_bounds [of x] by (simp add: ilog2_def)
  next
    case False
    with assms have "1 \<le> x * 2 ^ ilog2_down x"
      using ilog2_down_bounds [of x] by simp
    then have "1 / 2 ^ ilog2_down x \<le> x"
      by (simp add: field_simps)
    with False show ?thesis
      by (simp add: ilog2_def power_int_minus_divide)
  qed
  show "x < 2 powi (ilog2 x + 1)"
  proof (cases "1 \<le> x")
    case True
    then have "x < 2 ^ Suc (ilog2_up x)"
      using ilog2_up_bounds [of x] by simp
    with True show ?thesis
      by (simp add: ilog2_def power_int_add)
  next
    case False
    with assms have "x * 2 ^ ilog2_down x < 2"
      using ilog2_down_bounds [of x] by simp
    then have "x < 2 / 2 ^ ilog2_down x"
      by (simp add: field_simps)
    also have "\<dots> = 2 powi (- int (ilog2_down x)) * 2 powi 1"
      by (simp add: power_int_minus_divide)
    also have "\<dots> = 2 powi (- int (ilog2_down x) + 1)"
      by (subst power_int_add) simp_all
    finally show ?thesis
      using False by (simp add: ilog2_def)
  qed
qed

lemma round_half_even_error: "\<bar>of_int (round_half_even x) - x\<bar> \<le> 1 / 2"
proof -
  have "of_int \<lfloor>x\<rfloor> \<le> x" "x < of_int \<lfloor>x\<rfloor> + 1"
    by linarith+
  then show ?thesis
    unfolding round_half_even_def Let_def by (simp add: abs_if) linarith
qed


lemma fl_error:
  assumes lo: "2 powi (- 1022) \<le> \<bar>x\<bar>" and hi: "\<bar>x\<bar> \<le> 2 ^ 1023"
  shows "\<exists>y. fl x = Fin y \<and> \<bar>y - x\<bar> \<le> \<bar>x\<bar> / 2 ^ 53 \<and> (0 < x \<longrightarrow> 0 < y)"
proof -
  define a where "a = \<bar>x\<bar>"
  define L where "L = ilog2 a"
  have "(0::rat) < 2 powi (- 1022)"
    by simp
  with lo have apos: "0 < a"
    unfolding a_def by linarith
  then have x0: "x \<noteq> 0"
    by (auto simp add: a_def)
  from ilog2_bounds [OF apos] have b1: "2 powi L \<le> a" and b2: "a < 2 powi (L + 1)"
    by (simp_all add: L_def)
  from lo b2 have "(2::rat) powi (- 1022) < 2 powi (L + 1)"
    unfolding a_def by linarith
  then have "- 1022 < L + 1"
    using power_int_increasing [of "L + 1" "- 1022" "2::rat"] by (cases "- 1022 < L + 1") auto
  then have e: "max (L - 52) (- 1074) = L - 52"
    by simp
  define m where "m = round_half_even (a / 2 powi (L - 52))"
  define y where "y = of_int m * (2::rat) powi (L - 52)"
  have p: "(0::rat) < 2 powi (L - 52)"
    by simp
  have "\<bar>of_int m - a / 2 powi (L - 52)\<bar> \<le> 1 / 2"
    unfolding m_def by (rule round_half_even_error)
  then have "\<bar>of_int m - a / 2 powi (L - 52)\<bar> * 2 powi (L - 52) \<le> 1 / 2 * 2 powi (L - 52)"
    using p by (intro mult_right_mono) simp_all
  then have "\<bar>(of_int m - a / 2 powi (L - 52)) * 2 powi (L - 52)\<bar> \<le> 2 powi (L - 52) / 2"
    by (simp add: abs_mult)
  moreover have "(of_int m - a / 2 powi (L - 52)) * 2 powi (L - 52) = y - a"
    by (simp add: y_def left_diff_distrib)
  moreover have "(2::rat) powi (L - 52) / 2 = 2 powi L / 2 ^ 53"
    by (simp add: power_int_diff)
  ultimately have err: "\<bar>y - a\<bar> \<le> 2 powi L / 2 ^ 53"
    by simp
  also have "\<dots> \<le> a / 2 ^ 53"
    using b1 by (simp add: divide_right_mono)
  finally have err': "\<bar>y - a\<bar> \<le> a / 2 ^ 53" .
  have "y \<le> a + a / 2 ^ 53"
    using err' by linarith
  also have "\<dots> \<le> 2 ^ 1023 + 2 ^ 1023 / 2 ^ 53"
    using hi unfolding a_def by (intro add_mono divide_right_mono) simp_all
  also have "\<dots> < (2::rat) ^ 1024"
    by simp
  finally have nov: "\<not> 2 ^ 1024 \<le> y"
    by simp
  have ypos: "0 < y"
  proof -
    have "a / 2 ^ 53 < a"
      using apos by (simp add: field_simps)
    with err' show ?thesis
      by linarith
  qed
  have f: "fl x = Fin (if 0 < x then y else - y)"
    using x0 nov e
    by (simp add: fl_def Let_def a_def [symmetric] L_def [symmetric] m_def [symmetric]
        y_def [symmetric])
  show ?thesis
  proof (cases "0 < x")
    case True
    with f err' ypos show ?thesis
      by (simp add: a_def)
  next
    case False
    then have "a = - x"
      using x0 by (simp add: a_def)
    with f err' False show ?thesis
      by (simp add: abs_if split: if_splits)
  qed
qed

text \<open>
  Dividing a positive integer below \<open>2\<^sup>4\<^sup>8\<close> by a scale and multiplying by a factor, as
  every scaled decode does, misses the exact value by a relative error of at most
  \<open>2\<^sup>-\<^sup>5\<^sup>1\<close>.
\<close>

lemma div_mul_error:
  fixes n :: int and d f :: rat
  assumes n: "1 \<le> n" "n < 2 ^ 48" and d: "1 \<le> d" "d \<le> 1000" and f: "1 \<le> f" "f \<le> 1000"
  shows "\<exists>b. js_mul (js_div (Fin (of_int n)) (Fin d)) (Fin f) = Fin b
           \<and> \<bar>b - of_int n * f / d\<bar> \<le> of_int n * f / d / 2 ^ 51"
proof -
  define x where "x = rat_of_int n / d"
  define c where "c = x * f"
  have small: "(2::rat) powi (- 1022) \<le> 1 / 2000"
  proof -
    have "(2::rat) powi (- 1022) \<le> 2 powi (- 11)"
      by (rule power_int_increasing) simp_all
    also have "\<dots> \<le> 1 / 2000"
      by (simp add: power_int_minus_divide)
    finally show ?thesis .
  qed
  have n1: "(1::rat) \<le> of_int n" and n2: "rat_of_int n \<le> 2 ^ 48"
    using n by (simp_all add: of_int_le_iff [of _ "2 ^ 48", simplified] less_imp_le)
  have xlo: "1 / 1000 \<le> x"
  proof -
    have "1 / 1000 \<le> 1 / d"
      using d by (simp add: field_simps)
    also have "\<dots> \<le> rat_of_int n / d"
      using n1 d by (simp add: divide_right_mono)
    finally show ?thesis
      by (simp add: x_def)
  qed
  have xhi: "x \<le> 2 ^ 48"
  proof -
    have "rat_of_int n / d \<le> rat_of_int n / 1"
      using n1 d by (intro divide_left_mono) simp_all
    with n2 show ?thesis
      by (simp add: x_def)
  qed
  have "2 powi (- 1022) \<le> \<bar>x\<bar>" "\<bar>x\<bar> \<le> 2 ^ 1023"
    using xlo xhi small by simp_all
  from fl_error [OF this] xlo obtain a where a: "fl x = Fin a" "\<bar>a - x\<bar> \<le> \<bar>x\<bar> / 2 ^ 53" "0 < a"
    by auto
  have xpos: "0 < x"
    using xlo by simp
  have cpos: "0 < c"
    using xpos f by (simp add: c_def)
  have "\<bar>a - x\<bar> * f \<le> x / 2 ^ 53 * f"
    using a(2) xpos f by (intro mult_right_mono) simp_all
  moreover have "\<bar>a - x\<bar> * f = \<bar>a * f - c\<bar>"
    using f by (simp add: c_def left_diff_distrib [symmetric] abs_mult)
  moreover have "x / 2 ^ 53 * f = c / 2 ^ 53"
    by (simp add: c_def)
  ultimately have h1: "\<bar>a * f - c\<bar> \<le> c / 2 ^ 53"
    by simp
  have clo: "1 / 1000 \<le> c"
  proof -
    have "x * 1 \<le> x * f"
      using xpos f by (intro mult_left_mono) simp_all
    with xlo show ?thesis
      unfolding c_def by linarith
  qed
  have chi: "c \<le> 2 ^ 48 * 1000"
    unfolding c_def using xhi f xpos by (intro mult_mono) simp_all
  have h1': "\<bar>a * f - c\<bar> \<le> c / 9007199254740992"
    using h1 by simp
  have aflo: "1 / 2000 \<le> a * f"
    using h1' clo cpos by linarith
  have afhi: "a * f \<le> 2 * c"
    using h1' clo cpos by linarith
  have "2 powi (- 1022) \<le> \<bar>a * f\<bar>" "\<bar>a * f\<bar> \<le> 2 ^ 1023"
    using aflo afhi chi small by simp_all
  from fl_error [OF this] obtain b where b: "fl (a * f) = Fin b"
    "\<bar>b - a * f\<bar> \<le> \<bar>a * f\<bar> / 2 ^ 53"
    by auto
  have "\<bar>a * f\<bar> / 2 ^ 53 \<le> 2 * c / 2 ^ 53"
    using afhi aflo by (simp add: divide_right_mono)
  with b(2) have "\<bar>b - a * f\<bar> \<le> 2 * c / 9007199254740992"
    by simp
  with h1' have "\<bar>b - c\<bar> \<le> c / 2251799813685248"
    using cpos by linarith
  then have "\<bar>b - c\<bar> \<le> c / 2 ^ 51"
    by simp
  moreover have "js_mul (js_div (Fin (of_int n)) (Fin d)) (Fin f) = Fin b"
    using d a(1) b(1) by (simp add: x_def)
  moreover have "c = of_int n * f / d"
    by (simp add: c_def x_def)
  ultimately show ?thesis
    by auto
qed

lemma round_near:
  fixes b :: rat
  assumes "\<bar>b - of_int k\<bar> < 1 / 2"
  shows "round b = k"
proof -
  from assms have "of_int k \<le> b + 1 / 2" "b + 1 / 2 < of_int k + 1"
    by linarith+
  then show ?thesis
    unfolding round_def by (simp add: floor_eq_iff)
qed


text \<open>
  \<open>Math.round(n / d * d) / d\<close> for an unsigned 48-bit integer \<open>n\<close>: the product is
  within an eighth of \<open>n\<close>, so it rounds to \<open>n\<close>, and the result is \<open>n / d\<close> rounded
  to binary64.
\<close>

lemma scaled_same_factor:
  fixes n :: int and d :: rat
  assumes n: "0 \<le> n" "n < 2 ^ 48" and d: "1 \<le> d" "d \<le> 1000"
  shows "scaled (Fin (of_int n)) d d = fl (of_int n / d)"
proof (cases "n = 0")
  case True
  with d show ?thesis
    by (simp add: scaled_def fl_def)
next
  case False
  with n have n1: "1 \<le> n"
    by simp
  from div_mul_error [OF n1 n(2) d d] obtain b where
    b: "js_mul (js_div (Fin (of_int n)) (Fin d)) (Fin d) = Fin b"
    and e: "\<bar>b - of_int n * d / d\<bar> \<le> of_int n * d / d / 2 ^ 51"
    by blast
  have d0: "d \<noteq> 0"
    using d by simp
  have "rat_of_int n \<le> 2 ^ 48"
    using n by (simp add: of_int_le_iff [of _ "2 ^ 48", simplified] less_imp_le)
  then have "rat_of_int n / 2 ^ 51 \<le> 2 ^ 48 / 2 ^ 51"
    by (simp add: divide_right_mono)
  with e d0 have "\<bar>b - of_int n\<bar> < 1 / 2"
    by simp
  then have "round b = n"
    by (rule round_near)
  with b d0 show ?thesis
    by (simp add: scaled_def)
qed


section \<open>The water sensor (private cluster, attribute 0x0003)\<close>

text \<open>
  Claim C1. The water sensor is decoded with inverted polarity on both decode paths of
  attribute 0x0003: in an attribute report or read response every raw value delivered
  decodes to the negation of its truthiness, and so does every value other than
  \<open>undefined\<close> that an on-demand read answers with. Raw 1 is truthy and decodes to
  false; raw 0 is not and decodes to true.
\<close>

theorem water_sensor_inverted:
  "(\<forall>data raw.
      delivers data [num_key 0x0003, ''waterSensorValue'', ''waterSensor''] raw
      \<longrightarrow> field_of (private_04e0_num_convert sn \<lparr>msg_data = Some data\<rparr>) ''water_sensor''
            = Some (Bool (\<not> truthy raw)))
   \<and> (\<forall>(ent :: entity) raw.
      answers ent (ClusterId 0x04E0) [0x0003] [num_key 0x0003, ''waterSensor''] raw
        \<and> raw \<noteq> Undefined
      \<longrightarrow> get_attribute_convertGet sn ent ''water_sensor''
            = Inr (Some [(''water_sensor'', Bool (\<not> truthy raw))]))
   \<and> truthy (Num (Fin 1)) \<and> \<not> truthy (Num (Fin 0))"
proof (intro conjI allI impI)
  fix data raw
  assume a: "delivers data [num_key 0x0003, ''waterSensorValue'', ''waterSensor''] raw"
  have m: "map_of (mapAndAssign data 0x0003
              [num_key 0x0003, ''waterSensorValue'', ''waterSensor''] water_sensor_handler out0)
            ''water_sensor'' = Some (Bool (\<not> truthy raw))" for out0
    using delivers_index [OF a] delivers_pick [OF a]
    by (simp add: mapAndAssign_def hasAny_pick water_sensor_handler_def map_of_assign)
  show "field_of (private_04e0_num_convert sn \<lparr>msg_data = Some data\<rparr>) ''water_sensor''
            = Some (Bool (\<not> truthy raw))"
    by (simp only: private_convert_unfold) (simp add: handler_other m)
next
  fix ent :: entity and raw
  assume a: "answers ent (ClusterId 0x04E0) [0x0003] [num_key 0x0003, ''waterSensor''] raw
        \<and> raw \<noteq> Undefined"
  then obtain res where r: "ent_read ent (ClusterId 0x04E0) [0x0003] = Inr res"
    and d: "delivers res [num_key 0x0003, ''waterSensor''] raw"
    by (auto simp add: answers_def)
  from a r delivers_index [OF d]
  show "get_attribute_convertGet sn ent ''water_sensor''
            = Inr (Some [(''water_sensor'', Bool (\<not> truthy raw))])"
    by (simp add: get_attribute_convertGet_def get_water_sensor_def read_raw_def
        failed_to_read_def)
qed simp_all

theorem water_sensor_inverted_witness:
  "field_of (private_04e0_num_convert no_numeric_strings
       \<lparr>msg_data = Some [''waterSensorValue'' \<mapsto> Num (Fin 1)]\<rparr>) ''water_sensor''
     = Some (Bool False)
   \<and> get_attribute_convertGet no_numeric_strings
       (answering [''3'' \<mapsto> Num (Fin 0)])
       ''water_sensor''
     = Inr (Some [(''water_sensor'', Bool True)])"
  using water_sensor_inverted [of no_numeric_strings, THEN conjunct1, rule_format,
      of "[''waterSensorValue'' \<mapsto> Num (Fin 1)]" "Num (Fin 1)"]
    water_sensor_inverted [of no_numeric_strings, THEN conjunct2, THEN conjunct1, rule_format,
      of "answering [''3'' \<mapsto> Num (Fin 0)]"
        "Num (Fin 0)"]
  by (simp add: answers_def answering_def delivers_def pick_def hasOwnProperty_def num_keys)

text \<open>The earlier snapshot does not invert: \<open>out.water_sensor = !!raw\<close>.\<close>

lemma water_sensor_mjs_not_inverted:
  "water_sensor_handler_mjs raw [] = [(''water_sensor'', Bool (truthy raw))]"
  by (simp add: water_sensor_handler_mjs_def assign_def)

section \<open>Energy summation (seMetering, attribute 0x0000)\<close>

text \<open>
  Claim C2. Decoding the energy summation with raw value 28427 gives the energy 284.27;
  and for every raw value \<open>n\<close> of the attribute's type, an unsigned 48-bit integer,
  delivered under the numeric identifier or under either alias, the decoded energy is
  \<open>n / 100\<close> rounded to two decimal places. The decimal values are JavaScript numbers:
  the binary64 value nearest to each.
\<close>

theorem metering_energy_decode:
  "metering_num_convert sn \<lparr>msg_data = Some [num_key 0x0000 \<mapsto> Num (Fin 28427)]\<rparr>
     = Some [(''energy'', decimal (28427 / 100))]
   \<and> (\<forall>data n.
         0 \<le> n \<and> n < 2 ^ 48
         \<and> delivers data [num_key 0x0000, ''currentSummationDelivered'', ''currentSummDelivered'']
             (Num (Fin (of_int n)))
         \<longrightarrow> metering_num_convert sn \<lparr>msg_data = Some data\<rparr>
               = Some [(''energy'', decimal (round_to 2 (of_int n / 100)))])"
proof (intro conjI allI impI)
  have "scaled (Fin (of_int 28427)) 100 100 = fl (of_int 28427 / 100)"
    by (rule scaled_same_factor) simp_all
  then show "metering_num_convert sn \<lparr>msg_data = Some [num_key 0x0000 \<mapsto> Num (Fin 28427)]\<rparr>
     = Some [(''energy'', decimal (28427 / 100))]"
    by (simp add: metering_num_convert_def pick_def hasOwnProperty_def index_def decimal_def)
next
  fix data and n :: int
  assume h: "0 \<le> n \<and> n < 2 ^ 48
    \<and> delivers data [num_key 0x0000, ''currentSummationDelivered'', ''currentSummDelivered'']
        (Num (Fin (of_int n)))"
  then have a: "delivers data
      [num_key 0x0000, ''currentSummationDelivered'', ''currentSummDelivered'']
      (Num (Fin (of_int n)))"
    by simp
  then obtain key where
    k: "pick data [num_key 0x0000, ''currentSummationDelivered'', ''currentSummDelivered'']
       = Some key"
    and i: "index data (Some key) = Num (Fin (of_int n))"
    using delivers_index [OF a] by (auto simp add: delivers_def)
  have s: "scaled (Fin (of_int n)) 100 100 = fl (of_int n / 100)"
    using h by (intro scaled_same_factor) simp_all
  have r: "round_to 2 (rat_of_int n / 100) = of_int n / 100"
    by (simp add: round_to_def)
  from k i s show "metering_num_convert sn \<lparr>msg_data = Some data\<rparr>
               = Some [(''energy'', decimal (round_to 2 (of_int n / 100)))]"
    by (simp add: metering_num_convert_def decimal_def r)
qed

theorem metering_energy_decode_witness:
  "metering_num_convert no_numeric_strings
     \<lparr>msg_data = Some [''currentSummDelivered'' \<mapsto> Num (Fin 1250)]\<rparr>
     = Some [(''energy'', Num (Fin (25 / 2)))]"
  using metering_energy_decode [of no_numeric_strings, THEN conjunct2, rule_format,
      of 1250 "[''currentSummDelivered'' \<mapsto> Num (Fin 1250)]"]
  by (simp add: delivers_def pick_def hasOwnProperty_def num_keys round_to_def round_def fl_eval)

text \<open>
  The decoded energy of the raw value 28427 is the binary64 value nearest to 284.27, which
  is not 284.27 itself.
\<close>

lemma decimal_284_27:
  "decimal (28427 / 100) = Num (Fin (625116340855767 / 2199023255552))"
  by (simp add: fl_eval)

text \<open>
  A raw value that is no integer need not decode to the nearest hundredth: \<open>14.5 / 100\<close>
  times 100 is 14.499999999999998 in binary64, and the energy is 0.14.
\<close>

lemma metering_fraction_rounds_down:
  "metering_num_convert sn \<lparr>msg_data = Some [num_key 0x0000 \<mapsto> Num (Fin (29 / 2))]\<rparr>
     = Some [(''energy'', decimal (14 / 100))]"
  by (simp add: metering_num_convert_def pick_def hasOwnProperty_def index_def scaled_def
      round_def fl_eval)

text \<open>The earlier snapshot divides by 1000 and keeps three decimals.\<close>

lemma metering_mjs_divides_by_1000:
  "metering_num_convert_mjs sn \<lparr>msg_data = Some [num_key 0x0000 \<mapsto> Num (Fin 28427)]\<rparr>
     = Some [(''energy'', decimal (28427 / 1000))]"
proof -
  have "scaled (Fin (of_int 28427)) 1000 1000 = fl (of_int 28427 / 1000)"
    by (rule scaled_same_factor) simp_all
  then show ?thesis
    by (simp add: metering_num_convert_mjs_def pick_def hasOwnProperty_def index_def
        decimal_def)
qed

section \<open>The sentinel of the scaled temperatures\<close>

lemma not_sentinel_iff: "not_sentinel raw = (\<not> is_sentinel raw)"
  by (simp add: not_sentinel_def is_sentinel_def)

lemma private_sentinel_skipped:
  assumes "delivers data als raw" and "is_sentinel raw"
  shows "mapAndAssign data a als (temperature_handler sn f) out = out"
  using assms delivers_index [OF assms(1)]
  by (simp add: mapAndAssign_def temperature_handler_def not_sentinel_iff)

lemma read_raw_answers:
  "answers ent c attrs als raw \<Longrightarrow> read_raw ent c attrs als f = Inr (f raw)"
  by (auto simp add: answers_def read_raw_def dest: delivers_index)

text \<open>
  Claim C3. When the raw value delivered for a scaled temperature is the sentinel
  (\<open>-32768\<close> or \<open>0x8000\<close>), the decode emits no value for the field: the converters
  of \<open>device_temperature\<close> and \<open>ntc1_temperature\<close> return nothing, the private
  cluster's converter returns a state without \<open>ntc2_temperature\<close>,
  \<open>ntc1_relay_auto_temp\<close> or \<open>ntc2_relay_auto_temp\<close>, and the on-demand read of each
  of the five fields returns nothing.
\<close>

theorem sentinel_gives_no_reading:
  "(\<forall>data raw. is_sentinel raw \<and> delivers data [num_key 0x0000, ''currentTemperature''] raw
      \<longrightarrow> device_temp_num_convert sn \<lparr>msg_data = Some data\<rparr> = None)
   \<and> (\<forall>data raw. is_sentinel raw \<and> delivers data [num_key 0x0000, ''measuredValue''] raw
      \<longrightarrow> temp_measurement_num_convert sn \<lparr>msg_data = Some data\<rparr> = None)
   \<and> (\<forall>data raw. is_sentinel raw
        \<and> delivers data [num_key 0x0000, ''measuredValue2'', ''ntc2Temperature''] raw
      \<longrightarrow> field_of (private_04e0_num_convert sn \<lparr>msg_data = Some data\<rparr>) ''ntc2_temperature''
            = None)
   \<and> (\<forall>data raw. is_sentinel raw \<and> delivers data [num_key 0x0009, ''ntc1RelayAutoTemp''] raw
      \<longrightarrow> field_of (private_04e0_num_convert sn \<lparr>msg_data = Some data\<rparr>)
              ''ntc1_relay_auto_temp'' = None)
   \<and> (\<forall>data raw. is_sentinel raw \<and> delivers data [num_key 0x000A, ''ntc2RelayAutoTemp''] raw
      \<longrightarrow> field_of (private_04e0_num_convert sn \<lparr>msg_data = Some data\<rparr>)
              ''ntc2_relay_auto_temp'' = None)
   \<and> (\<forall>(ent :: entity) raw. is_sentinel raw
        \<and> answers ent (ClusterName ''genDeviceTempCfg'') [0x0000]
            [num_key 0x0000, ''currentTemperature''] raw
      \<longrightarrow> get_attribute_convertGet sn ent ''device_temperature'' = Inr None)
   \<and> (\<forall>(ent :: entity) raw. is_sentinel raw
        \<and> answers ent (ClusterName ''msTemperatureMeasurement'') [0x0000]
            [num_key 0x0000, ''measuredValue''] raw
      \<longrightarrow> get_attribute_convertGet sn ent ''ntc1_temperature'' = Inr None)
   \<and> (\<forall>(ent :: entity) raw. is_sentinel raw
        \<and> answers ent (ClusterId 0x04E0) [0x0000] [num_key 0x0000, ''ntc2Temperature''] raw
      \<longrightarrow> get_attribute_convertGet sn ent ''ntc2_temperature'' = Inr None)
   \<and> (\<forall>(ent :: entity) raw. is_sentinel raw
        \<and> answers ent (ClusterId 0x04E0) [0x0009] [num_key 0x0009, ''ntc1RelayAutoTemp''] raw
      \<longrightarrow> set_private_attribute_convertGet sn ent ''ntc1_relay_auto_temp'' = Inr None)
   \<and> (\<forall>(ent :: entity) raw. is_sentinel raw
        \<and> answers ent (ClusterId 0x04E0) [0x000A] [num_key 0x000A, ''ntc2RelayAutoTemp''] raw
      \<longrightarrow> set_private_attribute_convertGet sn ent ''ntc2_relay_auto_temp'' = Inr None)"
proof (intro conjI allI impI)
  fix data raw
  assume a: "is_sentinel raw \<and> delivers data [num_key 0x0000, ''currentTemperature''] raw"
  then have d: "delivers data [num_key 0x0000, ''currentTemperature''] raw" by simp
  from a delivers_index [OF d] delivers_pick [OF d]
  show "device_temp_num_convert sn \<lparr>msg_data = Some data\<rparr> = None"
    by (auto simp add: device_temp_num_convert_def not_sentinel_iff)
next
  fix data raw
  assume a: "is_sentinel raw \<and> delivers data [num_key 0x0000, ''measuredValue''] raw"
  then have d: "delivers data [num_key 0x0000, ''measuredValue''] raw" by simp
  from a delivers_index [OF d] delivers_pick [OF d]
  show "temp_measurement_num_convert sn \<lparr>msg_data = Some data\<rparr> = None"
    by (auto simp add: temp_measurement_num_convert_def not_sentinel_iff)
next
  fix data raw
  assume a: "is_sentinel raw
        \<and> delivers data [num_key 0x0000, ''measuredValue2'', ''ntc2Temperature''] raw"
  then have s: "mapAndAssign data 0x0000 [num_key 0x0000, ''measuredValue2'', ''ntc2Temperature'']
      (temperature_handler sn ''ntc2_temperature'') out0 = out0" for out0
    by (blast intro: private_sentinel_skipped)
  show "field_of (private_04e0_num_convert sn \<lparr>msg_data = Some data\<rparr>) ''ntc2_temperature''
            = None"
    by (simp only: private_convert_unfold) (simp add: handler_other s)
next
  fix data raw
  assume a: "is_sentinel raw \<and> delivers data [num_key 0x0009, ''ntc1RelayAutoTemp''] raw"
  then have s: "mapAndAssign data 0x0009 [num_key 0x0009, ''ntc1RelayAutoTemp'']
      (temperature_handler sn ''ntc1_relay_auto_temp'') out0 = out0" for out0
    by (blast intro: private_sentinel_skipped)
  show "field_of (private_04e0_num_convert sn \<lparr>msg_data = Some data\<rparr>)
              ''ntc1_relay_auto_temp'' = None"
    by (simp only: private_convert_unfold) (simp add: handler_other s)
next
  fix data raw
  assume a: "is_sentinel raw \<and> delivers data [num_key 0x000A, ''ntc2RelayAutoTemp''] raw"
  then have s: "mapAndAssign data 0x000A [num_key 0x000A, ''ntc2RelayAutoTemp'']
      (temperature_handler sn ''ntc2_relay_auto_temp'') out0 = out0" for out0
    by (blast intro: private_sentinel_skipped)
  show "field_of (private_04e0_num_convert sn \<lparr>msg_data = Some data\<rparr>)
              ''ntc2_relay_auto_temp'' = None"
    by (simp only: private_convert_unfold) (simp add: handler_other s)
next
  fix ent :: entity and raw
  assume a: "is_sentinel raw
        \<and> answers ent (ClusterName ''genDeviceTempCfg'') [0x0000]
            [num_key 0x0000, ''currentTemperature''] raw"
  then have r: "read_raw ent (ClusterName ''genDeviceTempCfg'') [0x0000]
            [num_key 0x0000, ''currentTemperature''] f = Inr (f raw)" for f
    by (blast intro: read_raw_answers)
  from a show "get_attribute_convertGet sn ent ''device_temperature'' = Inr None"
    by (simp add: get_attribute_convertGet_def get_device_temperature_def r
        failed_to_read_def not_sentinel_iff)
next
  fix ent :: entity and raw
  assume a: "is_sentinel raw
        \<and> answers ent (ClusterName ''msTemperatureMeasurement'') [0x0000]
            [num_key 0x0000, ''measuredValue''] raw"
  then have r: "read_raw ent (ClusterName ''msTemperatureMeasurement'') [0x0000]
            [num_key 0x0000, ''measuredValue''] f = Inr (f raw)" for f
    by (blast intro: read_raw_answers)
  from a show "get_attribute_convertGet sn ent ''ntc1_temperature'' = Inr None"
    by (simp add: get_attribute_convertGet_def get_ntc1_temperature_def r
        failed_to_read_def not_sentinel_iff)
next
  fix ent :: entity and raw
  assume a: "is_sentinel raw
        \<and> answers ent (ClusterId 0x04E0) [0x0000] [num_key 0x0000, ''ntc2Temperature''] raw"
  then have r: "read_raw ent (ClusterId 0x04E0) [0x0000] [num_key 0x0000, ''ntc2Temperature''] f = Inr (f raw)" for f
    by (blast intro: read_raw_answers)
  from a show "get_attribute_convertGet sn ent ''ntc2_temperature'' = Inr None"
    by (simp add: get_attribute_convertGet_def get_ntc2_temperature_def r
        failed_to_read_def not_sentinel_iff)
next
  fix ent :: entity and raw
  assume a: "is_sentinel raw
        \<and> answers ent (ClusterId 0x04E0) [0x0009] [num_key 0x0009, ''ntc1RelayAutoTemp''] raw"
  then have r: "read_raw ent (ClusterId 0x04E0) [0x0009] [num_key 0x0009, ''ntc1RelayAutoTemp''] f = Inr (f raw)" for f
    by (blast intro: read_raw_answers)
  from a show "set_private_attribute_convertGet sn ent ''ntc1_relay_auto_temp'' = Inr None"
    by (simp add: set_private_attribute_convertGet_def get_relay_auto_temp_def
        PRIVATE_CLUSTER_ID_def r failed_to_read_def not_sentinel_iff)
next
  fix ent :: entity and raw
  assume a: "is_sentinel raw
        \<and> answers ent (ClusterId 0x04E0) [0x000A] [num_key 0x000A, ''ntc2RelayAutoTemp''] raw"
  then have r: "read_raw ent (ClusterId 0x04E0) [0x000A] [num_key 0x000A, ''ntc2RelayAutoTemp''] f = Inr (f raw)" for f
    by (blast intro: read_raw_answers)
  from a show "set_private_attribute_convertGet sn ent ''ntc2_relay_auto_temp'' = Inr None"
    by (simp add: set_private_attribute_convertGet_def get_relay_auto_temp_def
        PRIVATE_CLUSTER_ID_def r failed_to_read_def not_sentinel_iff)
qed

theorem sentinel_gives_no_reading_witness:
  "device_temp_num_convert no_numeric_strings \<lparr>msg_data = Some [''0'' \<mapsto> Num (Fin (- 32768))]\<rparr> = None
   \<and> field_of (private_04e0_num_convert no_numeric_strings
        \<lparr>msg_data = Some [''ntc2Temperature'' \<mapsto> Num (Fin 32768), ''3'' \<mapsto> Num (Fin 1)]\<rparr>)
        ''ntc2_temperature'' = None
   \<and> get_attribute_convertGet no_numeric_strings
        (answering [''currentTemperature'' \<mapsto> Num (Fin 32768)]) ''device_temperature'' = Inr None"
  using sentinel_gives_no_reading [of no_numeric_strings, THEN conjunct1, rule_format,
      of "Num (Fin (- 32768))" "[''0'' \<mapsto> Num (Fin (- 32768))]"]
    sentinel_gives_no_reading [of no_numeric_strings, THEN conjunct2, THEN conjunct2, THEN conjunct1,
      rule_format, of "Num (Fin 32768)"
        "[''ntc2Temperature'' \<mapsto> Num (Fin 32768), ''3'' \<mapsto> Num (Fin 1)]"]
    sentinel_gives_no_reading [of no_numeric_strings, THEN conjunct2, THEN conjunct2, THEN conjunct2,
      THEN conjunct2, THEN conjunct2, THEN conjunct1, rule_format, of "Num (Fin 32768)"
        "(answering [''currentTemperature'' \<mapsto> Num (Fin 32768)])"]
  by (simp add: is_sentinel_def answers_def answering_def delivers_def pick_def
      hasOwnProperty_def num_keys)

section \<open>Enumerations on the write path\<close>

lemma is_space_simps:
  "is_space c = (c = CHR 0x09 \<or> c = CHR 0x0A \<or> c = CHR 0x0B \<or> c = CHR 0x0C \<or> c = CHR 0x0D
     \<or> c = CHR '' '' \<or> c = CHR 0xA0)"
proof -
  have "is_space c = (of_char c \<in> (of_char ` {CHR 0x09, CHR 0x0A, CHR 0x0B, CHR 0x0C, CHR 0x0D,
      CHR '' '', CHR 0xA0} :: nat set))"
    by (simp add: is_space_def)
  also have "\<dots> = (c \<in> {CHR 0x09, CHR 0x0A, CHR 0x0B, CHR 0x0C, CHR 0x0D, CHR '' '', CHR 0xA0})"
    by (rule inj_image_mem_iff) (simp add: inj_on_def)
  finally show ?thesis
    by simp
qed

lemma parseEnumValue_label:
  "map_of m (trim s) = Some c
   \<Longrightarrow> parseEnumValue (Str s) m fld
       = Inr \<lparr>parsed_raw = Num (Fin (of_nat c)), parsed_text = Str (trim s)\<rparr>"
  by (simp add: parseEnumValue_def)

lemma parseEnumValue_unknown:
  assumes "trim s \<notin> fst ` set m"
  shows "parseEnumValue (Str s) m fld = Inl (InvalidValue fld (Str s))"
proof -
  have "map_of m (trim s) = None"
    using assms by (simp add: map_of_eq_None_iff)
  then show ?thesis
    by (simp add: parseEnumValue_def)
qed

lemma property_key_code: "c < 10 \<Longrightarrow> property_key (Num (Fin (of_nat c))) = Some (num_key c)"
  by simp

lemma roundtrips_NTC_TYPE: "roundtrips NTC_TYPE_MAP NTC_TYPE_INV"
  by (simp add: roundtrips_def NTC_TYPE_MAP_def NTC_TYPE_INV_def invert_def
      parseEnumValue_label trim_def is_space_simps label_or_raw_def num_keys)

lemma roundtrips_WATER_RELAY_ACTION: "roundtrips WATER_RELAY_ACTION_MAP WATER_RELAY_ACTION_INV"
  by (simp add: roundtrips_def WATER_RELAY_ACTION_MAP_def WATER_RELAY_ACTION_INV_def invert_def
      parseEnumValue_label trim_def is_space_simps label_or_raw_def num_keys)

lemma roundtrips_NTC1_OPERATION: "roundtrips NTC1_OPERATION_MAP NTC1_OPERATION_INV"
  by (simp add: roundtrips_def NTC1_OPERATION_MAP_def NTC1_OPERATION_INV_def invert_def
      parseEnumValue_label trim_def is_space_simps label_or_raw_def num_keys)

lemma roundtrips_NTC2_OPERATION: "roundtrips NTC2_OPERATION_MAP NTC2_OPERATION_INV"
  by (simp add: roundtrips_def NTC2_OPERATION_MAP_def NTC2_OPERATION_INV_def invert_def
      parseEnumValue_label trim_def is_space_simps label_or_raw_def num_keys)

lemma roundtrips_OVERRIDE_OPTION: "roundtrips OVERRIDE_OPTION_MAP OVERRIDE_OPTION_INV"
  by (simp add: roundtrips_def OVERRIDE_OPTION_MAP_def OVERRIDE_OPTION_INV_def invert_def
      parseEnumValue_label trim_def is_space_simps label_or_raw_def num_keys)

text \<open>
  Claim C4, as stated, fails in its second part: the string \<open>" NTC-10K"\<close>, with a
  leading blank, is no label of the table, and encoding it does not throw: the value is
  trimmed first and encodes to 1.
\<close>

theorem parseEnumValue_trims_counterexample:
  "'' NTC-10K'' \<notin> fst ` set NTC_TYPE_MAP
   \<and> parseEnumValue (Str '' NTC-10K'') NTC_TYPE_MAP ''ntc1_sensor_type''
       = Inr \<lparr>parsed_raw = Num (Fin 1), parsed_text = Str ''NTC-10K''\<rparr>"
  by (simp add: NTC_TYPE_MAP_def parseEnumValue_def trim_def is_space_simps)

text \<open>
  Claim C4, amended. Each of the five tables of the write path round-trips: every label
  encodes to its code, echoes itself, and the code decodes back to the label. Encoding a
  string whose trimmed form is no label of the table throws the \<open>invalid\<close> error, which
  names the field and the value. The write \<open>ntc1_sensor_type = "NTC-10K"\<close>, once the
  transport accepts it, has put the value 1 on the wire and echoes \<open>"NTC-10K"\<close>.
\<close>

theorem enum_roundtrip:
  "roundtrips NTC_TYPE_MAP NTC_TYPE_INV
   \<and> roundtrips WATER_RELAY_ACTION_MAP WATER_RELAY_ACTION_INV
   \<and> roundtrips NTC1_OPERATION_MAP NTC1_OPERATION_INV
   \<and> roundtrips NTC2_OPERATION_MAP NTC2_OPERATION_INV
   \<and> roundtrips OVERRIDE_OPTION_MAP OVERRIDE_OPTION_INV
   \<and> (\<forall>m s fld. trim s \<notin> fst ` set m
         \<longrightarrow> parseEnumValue (Str s) m fld = Inl (InvalidValue fld (Str s)))
   \<and> (\<forall>ent :: entity.
         ent_write ent \<lparr>w_cluster = ClusterId 0x04E0, w_attribute = 0x0001,
                         w_value = Num (Fin 1), w_type = ENUM8\<rparr> = None
         \<longrightarrow> convertSet sn ent ''ntc1_sensor_type'' (Str ''NTC-10K'')
               = Inr \<lparr>written = \<lparr>w_cluster = ClusterId 0x04E0, w_attribute = 0x0001,
                                  w_value = Num (Fin 1), w_type = ENUM8\<rparr>,
                      echoed = [(''ntc1_sensor_type'', Str ''NTC-10K'')]\<rparr>)"
proof (intro conjI allI impI)
  fix ent :: entity
  assume "ent_write ent \<lparr>w_cluster = ClusterId 0x04E0, w_attribute = 0x0001,
                         w_value = Num (Fin 1), w_type = ENUM8\<rparr> = None"
  then show "convertSet sn ent ''ntc1_sensor_type'' (Str ''NTC-10K'')
               = Inr \<lparr>written = \<lparr>w_cluster = ClusterId 0x04E0, w_attribute = 0x0001,
                                  w_value = Num (Fin 1), w_type = ENUM8\<rparr>,
                      echoed = [(''ntc1_sensor_type'', Str ''NTC-10K'')]\<rparr>"
    by (simp add: convertSet_def write_parsed_def PRIVATE_CLUSTER_ID_def NTC_TYPE_MAP_def
        parseEnumValue_def trim_def is_space_simps)
qed (simp_all add: roundtrips_NTC_TYPE roundtrips_WATER_RELAY_ACTION roundtrips_NTC1_OPERATION
    roundtrips_NTC2_OPERATION roundtrips_OVERRIDE_OPTION parseEnumValue_unknown)

theorem enum_roundtrip_witness:
  "parseEnumValue (Str ''NTC-47K'') NTC_TYPE_MAP ''ntc2_sensor_type''
     = Inr \<lparr>parsed_raw = Num (Fin 6), parsed_text = Str ''NTC-47K''\<rparr>
   \<and> label_or_raw NTC_TYPE_INV (Num (Fin 6)) = Str ''NTC-47K''
   \<and> parseEnumValue (Str ''NTC-5K'') NTC_TYPE_MAP ''ntc2_sensor_type''
     = Inl (InvalidValue ''ntc2_sensor_type'' (Str ''NTC-5K''))
   \<and> convertSet no_numeric_strings (answering Map.empty) ''ntc1_sensor_type'' (Str ''NTC-10K'')
     = Inr \<lparr>written = \<lparr>w_cluster = ClusterId 0x04E0, w_attribute = 0x0001,
                        w_value = Num (Fin 1), w_type = ENUM8\<rparr>,
            echoed = [(''ntc1_sensor_type'', Str ''NTC-10K'')]\<rparr>"
proof -
  note t = enum_roundtrip [of no_numeric_strings]
  have r: "roundtrips NTC_TYPE_MAP NTC_TYPE_INV"
    using t by simp
  have u: "trim ''NTC-5K'' \<notin> fst ` set NTC_TYPE_MAP
      \<longrightarrow> parseEnumValue (Str ''NTC-5K'') NTC_TYPE_MAP ''ntc2_sensor_type''
          = Inl (InvalidValue ''ntc2_sensor_type'' (Str ''NTC-5K''))"
    using t by blast
  have w: "convertSet no_numeric_strings (answering Map.empty) ''ntc1_sensor_type''
      (Str ''NTC-10K'')
     = Inr \<lparr>written = \<lparr>w_cluster = ClusterId 0x04E0, w_attribute = 0x0001,
                        w_value = Num (Fin 1), w_type = ENUM8\<rparr>,
            echoed = [(''ntc1_sensor_type'', Str ''NTC-10K'')]\<rparr>"
    using t by (simp add: answering_def)
  have m: "(''NTC-47K'', 6) \<in> set NTC_TYPE_MAP"
    by (simp add: NTC_TYPE_MAP_def)
  from r m have
    "parseEnumValue (Str ''NTC-47K'') NTC_TYPE_MAP ''ntc2_sensor_type''
       = Inr \<lparr>parsed_raw = Num (Fin 6), parsed_text = Str ''NTC-47K''\<rparr>
     \<and> label_or_raw NTC_TYPE_INV (Num (Fin 6)) = Str ''NTC-47K''"
    unfolding roundtrips_def by fastforce
  moreover from u have "parseEnumValue (Str ''NTC-5K'') NTC_TYPE_MAP ''ntc2_sensor_type''
          = Inl (InvalidValue ''ntc2_sensor_type'' (Str ''NTC-5K''))"
    by (simp add: NTC_TYPE_MAP_def trim_def is_space_simps)
  ultimately show ?thesis
    using w by simp
qed

text \<open>The labels are those of this revision; the earlier snapshot knows no \<open>"NTC-10K"\<close>.\<close>

lemma parseEnumValue_mjs_labels:
  "parseEnumValue (Str ''NTC-10K'') NTC_TYPE_MAP_mjs ''ntc1_sensor_type''
     = Inl (InvalidValue ''ntc1_sensor_type'' (Str ''NTC-10K''))
   \<and> parseEnumValue (Str ''ntc_10k'') NTC_TYPE_MAP_mjs ''ntc1_sensor_type''
     = Inr \<lparr>parsed_raw = Num (Fin 1), parsed_text = Str ''ntc_10k''\<rparr>"
  by (simp add: NTC_TYPE_MAP_mjs_def parseEnumValue_def trim_def is_space_simps)

section \<open>Rounding on the write path\<close>

lemma round_is_half_away:
  fixes x :: rat
  assumes "0 \<le> x \<or> frac x \<noteq> 1 / 2"
  shows "round x = round_half_away x"
proof (cases "0 \<le> x")
  case True
  then show ?thesis
    by (simp add: round_def round_half_away_def)
next
  case False
  with assms have f: "frac x \<noteq> 1 / 2"
    by simp
  have "x - 1 / 2 \<noteq> of_int \<lfloor>x - 1 / 2\<rfloor>"
  proof
    assume e: "x - 1 / 2 = of_int \<lfloor>x - 1 / 2\<rfloor>"
    define n where "n = \<lfloor>x - 1 / 2\<rfloor>"
    from e have x: "x = of_int n + 1 / 2"
      unfolding n_def by linarith
    then have "\<lfloor>x\<rfloor> = n"
      by (simp add: floor_eq_iff)
    with x have "frac x = 1 / 2"
      by (simp add: frac_def)
    with f show False
      by simp
  qed
  then have "\<lceil>x - 1 / 2\<rceil> = \<lfloor>x - 1 / 2\<rfloor> + 1"
    by (simp add: ceiling_altdef)
  also have "\<dots> = \<lfloor>x + 1 / 2\<rfloor>"
    by linarith
  finally show ?thesis
    using False by (simp add: round_def round_half_away_def)
qed

text \<open>
  Claim C5, as stated, fails: \<open>Math.round\<close> sends a tie upwards, so the write of
  \<open>-30.5\<close> to a field of scale 1 (\<open>ntc1_calibration\<close>) encodes to \<open>-30\<close>, where
  rounding half away from zero gives \<open>-31\<close>.
\<close>

theorem parseNumeric_tie_counterexample:
  "parseNumeric no_numeric_strings (Num (Fin (- 61 / 2))) ''ntc1_calibration'' (Fin 1)
     = Inr \<lparr>parsed_raw = Num (Fin (- 30)), parsed_text = Num (Fin (- 30))\<rparr>
   \<and> round_half_away (- 61 / 2 * 1) = - 31"
  by (simp add: parseNumeric_def Let_def round_def round_half_away_def ceiling_def fl_eval)

text \<open>
  Claim C5, amended. The product \<open>v * s\<close> is a binary64 product. For every finite input
  \<open>v\<close> and finite scale \<open>s\<close> whose binary64 product is the finite value \<open>p\<close>, the
  encoded raw integer is \<open>p\<close> rounded to the nearest integer with a tie going upwards,
  \<open>\<lfloor>p + 1/2\<rfloor>\<close>; that is rounding half away from zero whenever \<open>p\<close> is not
  negative or is not a tie. Where the product is exact, as it is for the scale 1 and every
  binary64 input, \<open>p\<close> is \<open>v * s\<close>.
\<close>

theorem parseNumeric_rounds_half_up:
  "(\<forall>v s p. fl (v * s) = Fin p
      \<longrightarrow> (\<exists>q. parseNumeric sn (Num (Fin v)) label (Fin s) = Inr q
             \<and> parsed_raw q = Num (Fin (of_int \<lfloor>p + 1 / 2\<rfloor>))
             \<and> (0 \<le> p \<or> frac p \<noteq> 1 / 2
                  \<longrightarrow> parsed_raw q = Num (Fin (of_int (round_half_away p))))))
   \<and> (\<forall>v s. is_double (v * s)
      \<longrightarrow> (\<exists>q. parseNumeric sn (Num (Fin v)) label (Fin s) = Inr q
             \<and> parsed_raw q = Num (Fin (of_int \<lfloor>v * s + 1 / 2\<rfloor>))
             \<and> (0 \<le> v * s \<or> frac (v * s) \<noteq> 1 / 2
                  \<longrightarrow> parsed_raw q = Num (Fin (of_int (round_half_away (v * s)))))))
   \<and> (\<forall>v. is_double v
      \<longrightarrow> (\<exists>q. parseNumeric sn (Num (Fin v)) label (Fin 1) = Inr q
             \<and> parsed_raw q = Num (Fin (of_int \<lfloor>v + 1 / 2\<rfloor>))
             \<and> parsed_text q = Num (Fin (of_int \<lfloor>v + 1 / 2\<rfloor>))))"
proof -
  have g: "\<exists>q. parseNumeric sn (Num (Fin v)) label (Fin s) = Inr q
             \<and> parsed_raw q = Num (Fin (of_int \<lfloor>p + 1 / 2\<rfloor>))
             \<and> (0 \<le> p \<or> frac p \<noteq> 1 / 2
                  \<longrightarrow> parsed_raw q = Num (Fin (of_int (round_half_away p))))"
    if "fl (v * s) = Fin p" for v s p
  proof -
    have "round p = round_half_away p" if "0 \<le> p \<or> frac p \<noteq> 1 / 2"
      using that by (rule round_is_half_away)
    with \<open>fl (v * s) = Fin p\<close> show ?thesis
      by (auto simp add: parseNumeric_def Let_def round_def)
  qed
  have one: "\<exists>q. parseNumeric sn (Num (Fin v)) label (Fin 1) = Inr q
             \<and> parsed_raw q = Num (Fin (of_int \<lfloor>v + 1 / 2\<rfloor>))
             \<and> parsed_text q = Num (Fin (of_int \<lfloor>v + 1 / 2\<rfloor>))"
    if "is_double v" for v
    using that by (simp add: parseNumeric_def Let_def round_def is_double_def)
  show ?thesis
  proof (intro conjI allI impI)
    fix v s p
    assume "fl (v * s) = Fin p"
    then show "\<exists>q. parseNumeric sn (Num (Fin v)) label (Fin s) = Inr q
             \<and> parsed_raw q = Num (Fin (of_int \<lfloor>p + 1 / 2\<rfloor>))
             \<and> (0 \<le> p \<or> frac p \<noteq> 1 / 2
                  \<longrightarrow> parsed_raw q = Num (Fin (of_int (round_half_away p))))"
      by (rule g)
  next
    fix v s :: rat
    assume "is_double (v * s)"
    then have "fl (v * s) = Fin (v * s)"
      by (simp add: is_double_def)
    then show "\<exists>q. parseNumeric sn (Num (Fin v)) label (Fin s) = Inr q
             \<and> parsed_raw q = Num (Fin (of_int \<lfloor>v * s + 1 / 2\<rfloor>))
             \<and> (0 \<le> v * s \<or> frac (v * s) \<noteq> 1 / 2
                  \<longrightarrow> parsed_raw q = Num (Fin (of_int (round_half_away (v * s)))))"
      by (rule g)
  next
    fix v :: rat
    assume "is_double v"
    then show "\<exists>q. parseNumeric sn (Num (Fin v)) label (Fin 1) = Inr q
             \<and> parsed_raw q = Num (Fin (of_int \<lfloor>v + 1 / 2\<rfloor>))
             \<and> parsed_text q = Num (Fin (of_int \<lfloor>v + 1 / 2\<rfloor>))"
      by (rule one)
  qed
qed

text \<open>
  Two writes: \<open>30.5\<close> to a field of scale 1 encodes to 31; and \<open>0.305\<close>, the binary64
  value \<open>5494391545392005 / 2\<^sup>5\<^sup>4\<close>, to a field of scale 100 has the binary64 product
  30.5 and encodes to 31 as well, where the exact product lies below 30.5.
\<close>

theorem parseNumeric_rounds_half_up_witness:
  "(\<exists>q. parseNumeric no_numeric_strings (Num (Fin (61 / 2))) ''ntc1_calibration'' (Fin 1) = Inr q
      \<and> parsed_raw q = Num (Fin 31))
   \<and> (\<exists>q. parseNumeric no_numeric_strings (Num (Fin (5494391545392005 / 18014398509481984)))
            ''ntc1_relay_auto_temp'' (Fin 100) = Inr q
      \<and> parsed_raw q = Num (Fin 31))
   \<and> (5494391545392005 / 18014398509481984 :: rat) * 100 < 61 / 2"
proof -
  have a: "fl (61 / 2 * 1) = Fin (61 / 2)"
    by (simp add: fl_eval)
  have b: "fl (5494391545392005 / 18014398509481984 * 100) = Fin (61 / 2)"
    by (simp add: fl_eval)
  from parseNumeric_rounds_half_up [of no_numeric_strings "''ntc1_calibration''",
      THEN conjunct1, rule_format, OF a]
    parseNumeric_rounds_half_up [of no_numeric_strings "''ntc1_relay_auto_temp''",
      THEN conjunct1, rule_format, OF b]
  show ?thesis
    by auto
qed

text \<open>
  A product beyond the binary64 range is an infinity, and so is the encoded value: the
  write of \<open>2\<^sup>1\<^sup>0\<^sup>2\<^sup>3\<close> to a field of scale 100.
\<close>

lemma parseNumeric_overflow:
  "parseNumeric sn (Num (Fin (2 ^ 1023))) label (Fin 100)
     = Inr \<lparr>parsed_raw = Num PosInf, parsed_text = Num PosInf\<rparr>"
  by (simp add: parseNumeric_def Let_def fl_eval rlog10.simps)

text \<open>On the wire: the write of \<open>-30.5\<close> to \<open>ntc1_calibration\<close> carries \<open>-30\<close>.\<close>

lemma convertSet_calibration_tie:
  "convertSet no_numeric_strings (answering Map.empty) ''ntc1_calibration'' (Num (Fin (- 61 / 2)))
     = Inr \<lparr>written = \<lparr>w_cluster = ClusterId 0x04E0, w_attribute = 0x0004,
                        w_value = Num (Fin (- 30)), w_type = INT8\<rparr>,
            echoed = [(''ntc1_calibration'', Num (Fin (- 30)))]\<rparr>"
  by (simp add: convertSet_def write_parsed_def parseNumeric_def Let_def answering_def
      PRIVATE_CLUSTER_ID_def round_def fl_eval)

section \<open>Voltage and current (haElectricalMeasurement)\<close>




text \<open>
  A raw current midway between two hundredths goes either way. \<open>1005 / 1000\<close> times 100
  is 100.49999999999999 in binary64, and the current is 1; \<open>1015 / 1000\<close> times 100 is
  101.49999999999999 and the current is 1.01; \<open>5 / 1000\<close> times 100 is 0.5 and the
  current is 0.01.
\<close>

lemma current_tie_examples:
  "electrical_num_convert sn \<lparr>msg_data = Some [num_key 0x0508 \<mapsto> Num (Fin 1005)]\<rparr>
     = Some [(''current'', Num (Fin 1))]"
  "electrical_num_convert sn \<lparr>msg_data = Some [num_key 0x0508 \<mapsto> Num (Fin 1015)]\<rparr>
     = Some [(''current'', decimal (101 / 100))]"
  "electrical_num_convert sn \<lparr>msg_data = Some [num_key 0x0508 \<mapsto> Num (Fin 5)]\<rparr>
     = Some [(''current'', decimal (1 / 100))]"
  by (simp_all add: electrical_num_convert_def pick_def hasOwnProperty_def index_def num_keys
      assign_def scaled_def round_def fl_eval)

text \<open>The earlier snapshot keeps three decimals of the current.\<close>

lemma electrical_mjs_current_three_decimals:
  "electrical_num_convert_mjs sn \<lparr>msg_data = Some [num_key 0x0508 \<mapsto> Num (Fin 3294)]\<rparr>
     = Some [(''current'', decimal (3294 / 1000))]"
proof -
  have "scaled (Fin (of_int 3294)) 1000 1000 = fl (of_int 3294 / 1000)"
    by (rule scaled_same_factor) simp_all
  then show ?thesis
    by (simp add: electrical_num_convert_mjs_def pick_def hasOwnProperty_def index_def num_keys
        assign_def decimal_def)
qed

section \<open>Starting the poll twice\<close>

lemma onEvent_starts_polling:
  assumes "starts_polling type dev key"
  shows "onEvent type dev w =
    (if registry w key \<noteq> None then w
     else w\<lparr>timers := timers w @ [(next_handle w, key)],
            next_handle := Suc (next_handle w),
            registry := (registry w)(key \<mapsto> next_handle w)\<rparr>)"
  using assms by (simp add: starts_polling_def onEvent_def Let_def setInterval_def)

lemma consistent_new_timer:
  assumes "consistent w" and "registry w key = None"
  shows "consistent (w\<lparr>timers := timers w @ [(next_handle w, key)],
            next_handle := Suc (next_handle w),
            registry := (registry w)(key \<mapsto> next_handle w)\<rparr>)"
proof -
  from assms have "timers_of w key = []"
    by (simp add: consistent_def)
  with assms(1) show ?thesis
    by (auto simp add: consistent_def timers_of_def less_Suc_eq)
qed

text \<open>
  Claim C7 asks two successive polling-start events, \<open>start\<close> or
  \<open>deviceAnnounce\<close>, to leave exactly one active poll timer registered for the device.
  Here the device at \<open>0x00124b0001\<close> is not polling and receives two \<open>start\<close>
  events: \<open>onEvent\<close> returns on each at once, so no timer is registered for the device
  and none is live.
\<close>

theorem onEvent_start_registers_no_timer:
  "registry (onEvent (EventName ''start'') (Some (device_at ''0x00124b0001''))
      (onEvent (EventName ''start'') (Some (device_at ''0x00124b0001'')) idle_world))
     ''0x00124b0001'' = None
   \<and> timers_of (onEvent (EventName ''start'') (Some (device_at ''0x00124b0001''))
      (onEvent (EventName ''start'') (Some (device_at ''0x00124b0001'')) idle_world))
     ''0x00124b0001'' = []"
  by (simp add: onEvent_def Let_def device_addr_def device_at_def idle_world_def timers_of_def)

text \<open>
  A \<open>start\<close> event, in either form of the first argument, never changes the state: the
  guard that \<open>onEvent\<close> opens with returns on it, as it does on \<open>stop\<close>.
\<close>

lemma onEvent_start_ignored:
  "onEvent (EventName ''start'') dev w = w" "onEvent (EventObject ''start'' d) dev w = w"
  by (simp_all add: onEvent_def Let_def split: option.splits)

text \<open>
  Every other event that carries the device starts polling it, \<open>deviceAnnounce\<close> among
  them. In a world whose registry and timers agree, for every device identity and every such
  event: after the event exactly one timer is registered and live for the identity, a second
  such event changes nothing, an event for an identity already polling changes nothing (the
  registered timer is not replaced), and registry and timers still agree.
\<close>

lemma onEvent_other_event_twice:
  "\<forall>type dev key w. starts_polling type dev key \<and> consistent w
     \<longrightarrow> (\<exists>h. registry (onEvent type dev w) key = Some h
              \<and> timers_of (onEvent type dev w) key = [h])
         \<and> onEvent type dev (onEvent type dev w) = onEvent type dev w
         \<and> (registry w key \<noteq> None \<longrightarrow> onEvent type dev w = w)
         \<and> consistent (onEvent type dev w)"
proof (intro allI impI)
  fix type dev key w
  assume a: "starts_polling type dev key \<and> consistent w"
  then have s: "starts_polling type dev key" and c: "consistent w"
    by simp_all
  note step = onEvent_starts_polling [OF s]
  show "(\<exists>h. registry (onEvent type dev w) key = Some h
              \<and> timers_of (onEvent type dev w) key = [h])
         \<and> onEvent type dev (onEvent type dev w) = onEvent type dev w
         \<and> (registry w key \<noteq> None \<longrightarrow> onEvent type dev w = w)
         \<and> consistent (onEvent type dev w)"
  proof (cases "registry w key")
    case None
    from c None have t: "timers_of w key = []"
      by (simp add: consistent_def)
    let ?w = "w\<lparr>timers := timers w @ [(next_handle w, key)],
            next_handle := Suc (next_handle w),
            registry := (registry w)(key \<mapsto> next_handle w)\<rparr>"
    have e: "onEvent type dev w = ?w"
      using None by (simp add: step)
    have r: "registry ?w key = Some (next_handle w)"
      by simp
    have "timers_of ?w key = [next_handle w]"
      using t by (simp add: timers_of_def)
    moreover have "onEvent type dev ?w = ?w"
      by (simp add: step)
    moreover have "consistent ?w"
      using c None by (rule consistent_new_timer)
    ultimately show ?thesis
      using e r None by simp
  next
    case (Some h)
    with c have "timers_of w key = [h]"
      by (simp add: consistent_def)
    with Some c show ?thesis
      by (simp add: step)
  qed
qed

lemma onEvent_deviceAnnounce_twice:
  "onEvent (EventName ''deviceAnnounce'') (Some (device_at ''0x00124b0001''))
     (onEvent (EventName ''deviceAnnounce'') (Some (device_at ''0x00124b0001'')) idle_world)
     = \<lparr>registry = [''0x00124b0001'' \<mapsto> 0], timers = [(0, ''0x00124b0001'')], next_handle = 1\<rparr>
   \<and> timers_of (onEvent (EventName ''deviceAnnounce'') (Some (device_at ''0x00124b0001''))
       idle_world) ''0x00124b0001'' = [0]"
proof -
  have s: "starts_polling (EventName ''deviceAnnounce'') (Some (device_at ''0x00124b0001''))
      ''0x00124b0001''"
    by (simp add: starts_polling_def device_addr_def device_at_def)
  have c: "consistent idle_world"
    by (simp add: consistent_def idle_world_def timers_of_def)
  have e: "onEvent (EventName ''deviceAnnounce'') (Some (device_at ''0x00124b0001'')) idle_world
     = \<lparr>registry = [''0x00124b0001'' \<mapsto> 0], timers = [(0, ''0x00124b0001'')], next_handle = 1\<rparr>"
    by (simp add: onEvent_def Let_def device_addr_def device_at_def idle_world_def
        setInterval_def)
  from onEvent_other_event_twice [rule_format, OF conjI, OF s c]
  have "onEvent (EventName ''deviceAnnounce'') (Some (device_at ''0x00124b0001''))
     (onEvent (EventName ''deviceAnnounce'') (Some (device_at ''0x00124b0001'')) idle_world)
     = onEvent (EventName ''deviceAnnounce'') (Some (device_at ''0x00124b0001'')) idle_world"
    by simp
  with e show ?thesis
    by (simp add: timers_of_def)
qed

text \<open>
  The earlier snapshot starts polling on \<open>start\<close> and on \<open>deviceAnnounce\<close>, and
  there too the second event changes nothing.
\<close>

lemma onEvent_mjs_start_twice:
  assumes "device_addr dev = Some key"
    and "type = EventName ''start'' \<or> type = EventName ''deviceAnnounce''"
  shows "registry (onEvent_mjs type dev w) key \<noteq> None"
    and "onEvent_mjs type dev (onEvent_mjs type dev w) = onEvent_mjs type dev w"
  using assms by (auto simp add: onEvent_mjs_def Let_def setInterval_def)

section \<open>Stopping the poll\<close>

text \<open>
  Claim C8 asks a \<open>stop\<close> event to cancel the timer of a polling device and to remove
  its entry from the registry. Here the device at \<open>0x00124b0001\<close> starts polling on
  \<open>deviceAnnounce\<close>; the \<open>stop\<close> event that follows changes nothing: the entry
  and the live timer are still there.
\<close>

theorem onEvent_stop_keeps_timer:
  "onEvent (EventName ''deviceAnnounce'') (Some (device_at ''0x00124b0001'')) idle_world
     = \<lparr>registry = [''0x00124b0001'' \<mapsto> 0], timers = [(0, ''0x00124b0001'')], next_handle = 1\<rparr>
   \<and> onEvent (EventName ''stop'') (Some (device_at ''0x00124b0001''))
       \<lparr>registry = [''0x00124b0001'' \<mapsto> 0], timers = [(0, ''0x00124b0001'')], next_handle = 1\<rparr>
     = \<lparr>registry = [''0x00124b0001'' \<mapsto> 0], timers = [(0, ''0x00124b0001'')], next_handle = 1\<rparr>"
  by (simp add: onEvent_def Let_def device_addr_def device_at_def idle_world_def setInterval_def)

text \<open>
  A \<open>stop\<close> event, in either form of the first argument, returns before the branch
  that clears the timer: that branch is never reached.
\<close>

lemma onEvent_stop_ignored:
  "onEvent (EventName ''stop'') dev w = w" "onEvent (EventObject ''stop'' d) dev w = w"
  by (simp_all add: onEvent_def Let_def split: option.splits)

text \<open>The earlier snapshot does stop: the entry is removed and its timer cleared.\<close>

lemma onEvent_mjs_stop:
  assumes "device_addr dev = Some key" and "consistent w"
  shows "registry (onEvent_mjs (EventName ''stop'') dev w) key = None"
    and "timers_of (onEvent_mjs (EventName ''stop'') dev w) key = []"
proof -
  show "registry (onEvent_mjs (EventName ''stop'') dev w) key = None"
    using assms(1) by (simp add: onEvent_mjs_def Let_def)
  from assms(2) have t: "timers_of w key = (case registry w key of None \<Rightarrow> [] | Some h \<Rightarrow> [h])"
    by (simp add: consistent_def)
  show "timers_of (onEvent_mjs (EventName ''stop'') dev w) key = []"
  proof (cases "registry w key")
    case None
    with t assms(1) show ?thesis
      by (simp add: onEvent_mjs_def Let_def timers_of_def)
  next
    case (Some h)
    with t have "map fst (filter (\<lambda>t. snd t = key) (timers w)) = [h]"
      by (simp add: timers_of_def)
    then have "\<forall>t \<in> set (filter (\<lambda>t. snd t = key) (timers w)). fst t = h"
      by (metis (no_types, lifting) imageI list.set_map list.simps(15) empty_set singletonD)
    then have "filter (\<lambda>t. snd t = key) (filter (\<lambda>t. fst t \<noteq> h) (timers w)) = []"
      by (auto simp add: filter_empty_conv)
    with Some assms(1) show ?thesis
      by (simp add: onEvent_mjs_def Let_def timers_of_def clearInterval_def)
  qed
qed

section \<open>Device setup survives a failed binding\<close>

lemma completes_say: "completes (say l m) []"
  by (simp add: completes_def say_def)

lemma completes_seq_Nil: "completes (seq []) []"
  by (simp add: completes_def)

lemma completes_seq_Cons:
  assumes "completes s cs" and "completes (seq ss) ds"
  shows "completes (seq (s # ss)) (cs @ ds)"
  unfolding completes_def
proof (intro allI)
  fix w
  obtain w' where s: "s w = (None, w')"
    using assms(1) by (metis completes_def prod.collapse)
  with assms(1) have c: "calls w' = calls w @ cs"
    by (metis completes_def snd_conv)
  from assms(2) have "fst (seq ss w') = None" "calls (snd (seq ss w')) = calls w' @ ds"
    by (simp_all add: completes_def)
  with s c show "fst (seq (s # ss) w) = None \<and> calls (snd (seq (s # ss) w)) = calls w @ cs @ ds"
    by simp
qed

text \<open>A transport call inside \<open>try\<close> with a handler that only logs: made once, never thrown on.\<close>

lemma completes_try_transport: "completes (try_catch (transport env c) (\<lambda>err. say l (m err))) [c]"
  by (simp add: completes_def try_catch_def transport_def say_def split: option.splits)

lemma completes_try_transport_say:
  "completes (try_catch (seq [transport env c, say l' m']) (\<lambda>err. say l (m err))) [c]"
  by (simp add: completes_def try_catch_def transport_def say_def split: option.splits)

lemma completes_try_report: "completes (try_report env helper opts label) [ReportingHelper helper opts]"
  unfolding try_report_def by (rule completes_try_transport)

lemma completes_safeRead: "completes (safeRead env c attrs label) [Read c attrs]"
  unfolding safeRead_def by (rule completes_try_transport_say)

lemma findBestEndpoint_endpoints: "findBestEndpoint dev = Some ep \<Longrightarrow> endpoints dev \<noteq> None"
  by (cases "endpoints dev") (simp_all add: findBestEndpoint_def getEndpoint_def)

text \<open>
  Claim C9. Once the orchestrator has found an endpoint, whatever the transport does
  with each call, and so also when the binding step throws: \<open>configure\<close> returns
  without throwing, and it has made the binding call, then every reporting-configuration
  call, then every seed read, each once and in this order.
\<close>

theorem configure_survives_failures:
  "\<forall>env dev ep w. findBestEndpoint dev = Some ep
     \<longrightarrow> fst (configure env dev w) = None
         \<and> calls (snd (configure env dev w))
             = calls w @ Bind bind_clusters # reporting_calls @ seed_reads"
proof (intro allI impI)
  fix env dev ep w
  assume f: "findBestEndpoint dev = Some ep"
  then obtain eps where e: "endpoints dev = Some eps"
    using findBestEndpoint_endpoints by blast
  note step = completes_say completes_try_transport completes_try_transport_say
    completes_try_report completes_safeRead
  have "completes (configure env dev) ([] @ [] @ [] @ [] @ [] @
      ([] @ [Bind bind_clusters] @ [ReportingHelper ''onOff'' None]
        @ [ReportingHelper ''temperature'' (Some (15, 600, 10))]
        @ [ReportingHelper ''rmsVoltage'' (Some (10, 3600, 1))]
        @ [ReportingHelper ''rmsCurrent'' (Some (10, 3600, 10))]
        @ [ReportingHelper ''activePower'' (Some (10, 3600, 5))]
        @ [ConfigureReporting 0x0002
            [\<lparr>attribute = 0x0000, minimumReportInterval = 15,
              maximumReportInterval = 600, reportableChange = 10\<rparr>]]
        @ [ConfigureReporting 0x0702
            [\<lparr>attribute = 0x0000, minimumReportInterval = 30,
              maximumReportInterval = 3600, reportableChange = 1\<rparr>]]
        @ []
        @ [ConfigureReporting 0x04E0
            [\<lparr>attribute = 0x0000, minimumReportInterval = 15,
              maximumReportInterval = 600, reportableChange = 10\<rparr>,
             \<lparr>attribute = 0x0003, minimumReportInterval = 1,
              maximumReportInterval = 300, reportableChange = 1\<rparr>]]
        @ [Read (ClusterName ''genOnOff'') [0x0000]]
        @ [Read (ClusterName ''genDeviceTempCfg'') [0x0000]]
        @ [Read (ClusterName ''msTemperatureMeasurement'') [0x0000]]
        @ [Read (ClusterName ''haElectricalMeasurement'') [0x0505, 0x0508, 0x050B]]
        @ [Read (ClusterName ''seMetering'') [0x0000]]
        @ [Read (ClusterId 0x04E0) [0x0000, 0x0003]]
        @ [Read (ClusterId 0x04E0) [0x0001, 0x0002]]
        @ [Read (ClusterId 0x04E0) [0x0007, 0x0008]]
        @ [] @ []) @ [])"
    unfolding configure_def e f option.case
    by (intro completes_seq_Cons completes_seq_Nil step)
  then show "fst (configure env dev w) = None
         \<and> calls (snd (configure env dev w))
             = calls w @ Bind bind_clusters # reporting_calls @ seed_reads"
    by (simp add: completes_def reporting_calls_def seed_reads_def)
qed

theorem configure_survives_failures_witness:
  "bind_throws (Bind bind_clusters) = Some ''Error: bind seMetering failed''
   \<and> fst (configure bind_throws relay \<lparr>calls = [], logged = []\<rparr>) = None
   \<and> calls (snd (configure bind_throws relay \<lparr>calls = [], logged = []\<rparr>))
       = Bind bind_clusters # reporting_calls @ seed_reads"
proof -
  have "findBestEndpoint relay = Some \<lparr>ep_ID = 1, inputClusters = [Num (Fin 6), Num (Fin 1794)]\<rparr>"
    by (simp add: findBestEndpoint_def relay_def hasCluster_def)
  from configure_survives_failures [rule_format, OF this, of bind_throws "\<lparr>calls = [], logged = []\<rparr>"]
  show ?thesis
    by (simp add: bind_throws_def)
qed

section \<open>The refresh of \<open>device_temperature\<close> against its report\<close>

text \<open>
  Claim C10 asks the on-demand refresh and the attribute report to decode one raw reading
  of \<open>device_temperature\<close> to one value. The raw reading 215 is accepted by both paths;
  the report decodes it to 21.5, the refresh returns it unscaled, 215.
\<close>

theorem device_temperature_refresh_unscaled:
  "device_temp_num_convert no_numeric_strings \<lparr>msg_data = Some [''0'' \<mapsto> Num (Fin 215)]\<rparr>
     = Some [(''device_temperature'', Num (Fin (43 / 2)))]
   \<and> get_attribute_convertGet no_numeric_strings (answering [''0'' \<mapsto> Num (Fin 215)])
       ''device_temperature''
     = Inr (Some [(''device_temperature'', Num (Fin 215))])"
  by (simp add: device_temp_num_convert_def get_attribute_convertGet_def
      get_device_temperature_def read_raw_def failed_to_read_def answering_def
      pick_def hasOwnProperty_def index_def num_keys not_sentinel_def scaled_def fl_eval)

text \<open>
  The refresh returns every accepted reading as it is, where the report divides it by ten
  and rounds.
\<close>

lemma device_temperature_paths:
  assumes "delivers data [num_key 0x0000, ''currentTemperature''] (Num (Fin r))"
    and "not_sentinel (Num (Fin r))"
  shows "device_temp_num_convert sn \<lparr>msg_data = Some data\<rparr>
           = Some [(''device_temperature'', Num (scaled (Fin r) 10 10))]"
    and "get_attribute_convertGet sn (answering data) ''device_temperature''
           = Inr (Some [(''device_temperature'', Num (Fin r))])"
proof -
  from assms(1) obtain key where k: "pick data [num_key 0x0000, ''currentTemperature''] = Some key"
    by (auto simp add: delivers_def)
  with delivers_index [OF assms(1)] have i: "index data (Some key) = Num (Fin r)"
    by simp
  from k i assms(2)
  show "device_temp_num_convert sn \<lparr>msg_data = Some data\<rparr>
           = Some [(''device_temperature'', Num (scaled (Fin r) 10 10))]"
    by (simp add: device_temp_num_convert_def)
  from k i assms(2)
  show "get_attribute_convertGet sn (answering data) ''device_temperature''
           = Inr (Some [(''device_temperature'', Num (Fin r))])"
    by (simp add: get_attribute_convertGet_def get_device_temperature_def read_raw_def
        failed_to_read_def answering_def)
qed

text \<open>The earlier snapshot's refresh scales as the report does.\<close>

lemma device_temperature_mjs_paths_agree:
  assumes "delivers data [num_key 0x0000, ''currentTemperature''] raw"
    and "not_sentinel raw" and "\<not> nullish raw"
  shows "get_device_temperature_mjs sn (answering data)
           = Inr (device_temp_num_convert sn \<lparr>msg_data = Some data\<rparr>)"
proof -
  from assms(1) obtain key where k: "pick data [num_key 0x0000, ''currentTemperature''] = Some key"
    by (auto simp add: delivers_def)
  with delivers_index [OF assms(1)] have i: "index data (Some key) = raw"
    by simp
  from assms(3) have "raw \<noteq> Undefined" "raw \<noteq> Null"
    by auto
  with k i assms(2) assms(3) show ?thesis
    by (simp add: get_device_temperature_mjs_def device_temp_num_convert_def read_raw_def
        answering_def)
qed

end
